theory Spec2Isabelle
  imports Main "HOL-Library.Word" "HOL-Library.Multiset"
begin

section \<open>JavaScript values used by the upload and listing back end\<close>

text \<open>
  A JavaScript string is a sequence of UTF-16 code units; the regular expression
  \<^verbatim>\<open>/\s+/g\<close> of the source (no \<^verbatim>\<open>u\<close> flag) works on code units, so strings are lists of
  16-bit words. \<open>js\<close> embeds an ASCII literal of the source.
\<close>

type_synonym jstring = "16 word list"

definition js :: "string \<Rightarrow> jstring" where
  "js s = map (\<lambda>c. of_nat (of_char c)) s"

text \<open>
  The class \<^verbatim>\<open>\s\<close> of ECMAScript: WhiteSpace (TAB, VT, FF, SP, NBSP, ZWNBSP and the
  Unicode space separators) and LineTerminator (LF, CR, LS, PS).
\<close>

definition is_space :: "16 word \<Rightarrow> bool" where
  "is_space c = (c = 0x09 \<or> c = 0x0A \<or> c = 0x0B \<or> c = 0x0C \<or> c = 0x0D \<or> c = 0x20
     \<or> c = 0xA0 \<or> c = 0x1680 \<or> (0x2000 \<le> c \<and> c \<le> 0x200A) \<or> c = 0x2028 \<or> c = 0x2029
     \<or> c = 0x202F \<or> c = 0x205F \<or> c = 0x3000 \<or> c = 0xFEFF)"

text \<open>
  \<^verbatim>\<open>original.replace(/\s+/g, '_')\<close>: the matcher scans from the left; at a whitespace
  code unit the greedy \<^verbatim>\<open>\s+\<close> consumes the whole run, which is replaced by one
  underscore (0x5F), and the scan resumes after the run; any other code unit is copied.
\<close>

function sanitize :: "jstring \<Rightarrow> jstring" where
  "sanitize [] = []"
| "sanitize (c # cs) =
     (if is_space c then 0x5F # sanitize (dropWhile is_space cs) else c # sanitize cs)"
  by pat_completeness auto
termination
  by (relation "measure length") (auto simp: less_Suc_eq_le length_dropWhile_le)

text \<open>
  The second reading of the same operation, written from the words of the specification:
  split the name into its maximal runs of code units of one kind (whitespace or not),
  and replace every whitespace run by a single underscore.
\<close>

fun runs :: "jstring \<Rightarrow> jstring list" where
  "runs [] = []"
| "runs (c # cs) =
     (case runs cs of
        [] \<Rightarrow> [[c]]
      | r # rs \<Rightarrow> if is_space c = is_space (hd r) then (c # r) # rs else [c] # r # rs)"

definition sanitize_spec :: "jstring \<Rightarrow> jstring" where
  "sanitize_spec N = concat (map (\<lambda>r. if is_space (hd r) then js ''_'' else r) (runs N))"

text \<open>
  \<^verbatim>\<open>`${Date.now()}`\<close>: Number-to-string of an integral time value. A time value is at
  most 8.64e15 in magnitude, far below the 1e21 where JavaScript switches to exponent
  notation, so the result is the plain decimal numeral, with a minus sign (0x2D) for a
  clock set before 1970.
\<close>

fun dec_digits :: "nat \<Rightarrow> jstring" where
  "dec_digits n =
     (if n < 10 then [of_nat (48 + n)] else dec_digits (n div 10) @ [of_nat (48 + n mod 10)])"

declare dec_digits.simps [simp del]

definition number_toString :: "int \<Rightarrow> jstring" where
  "number_toString i = (if i < 0 then 0x2D # dec_digits (nat (- i)) else dec_digits (nat i))"

text \<open>\<^verbatim>\<open>s.startsWith(p)\<close> and \<^verbatim>\<open>s.includes(p)\<close> on strings.\<close>

definition startsWith :: "jstring \<Rightarrow> jstring \<Rightarrow> bool" where
  "startsWith s p = (take (length p) s = p)"

fun str_includes :: "jstring \<Rightarrow> jstring \<Rightarrow> bool" where
  "str_includes [] p = (p = [])"
| "str_includes (c # cs) p = (startsWith (c # cs) p \<or> str_includes cs p)"

text \<open>
  Values that reach a JSON response. Property names are literals of the source and are
  kept as plain strings; an object is the list of its properties in insertion order.
  A property whose value is \<open>JUndefined\<close> is a property of the object.
\<close>

datatype jsval =
    JUndefined
  | JNull
  | JBool bool
  | JNum int
  | JStr jstring
  | JDate int
  | JArr "jsval list"
  | JObj "(string \<times> jsval) list"

fun field_names :: "jsval \<Rightarrow> string list" where
  "field_names (JObj ps) = map fst ps"
| "field_names _ = []"

fun field :: "string \<Rightarrow> jsval \<Rightarrow> jsval option" where
  "field k (JObj ps) = map_of ps k"
| "field k _ = None"

text \<open>A string that may be \<^verbatim>\<open>undefined\<close> is an option; truthiness excludes the empty string.\<close>

definition truthy :: "jstring option \<Rightarrow> bool" where
  "truthy v = (case v of None \<Rightarrow> False | Some s \<Rightarrow> s \<noteq> [])"

text \<open>\<^verbatim>\<open>v || d\<close> for a string-or-undefined \<open>v\<close> and a string \<open>d\<close>.\<close>

definition or_default :: "jstring option \<Rightarrow> jstring \<Rightarrow> jstring" where
  "or_default v d = (case v of None \<Rightarrow> d | Some s \<Rightarrow> if s = [] then d else s)"

text \<open>\<^verbatim>\<open>`${v}`\<close> in a template literal.\<close>

definition template :: "jstring option \<Rightarrow> jstring" where
  "template v = (case v of None \<Rightarrow> js ''undefined'' | Some s \<Rightarrow> s)"

definition str_val :: "jstring option \<Rightarrow> jsval" where
  "str_val v = (case v of None \<Rightarrow> JUndefined | Some s \<Rightarrow> JStr s)"

definition num_val :: "nat option \<Rightarrow> jsval" where
  "num_val v = (case v of None \<Rightarrow> JUndefined | Some n \<Rightarrow> JNum (int n))"

definition int_val :: "int option \<Rightarrow> jsval" where
  "int_val v = (case v of None \<Rightarrow> JUndefined | Some n \<Rightarrow> JNum n)"

text \<open>\<^verbatim>\<open>v || null\<close> for a number-or-undefined \<open>v\<close> (zero is falsy).\<close>

definition num_or_null :: "nat option \<Rightarrow> jsval" where
  "num_or_null v = (case v of None \<Rightarrow> JNull | Some n \<Rightarrow> if n = 0 then JNull else JNum (int n))"

section \<open>Errors, the storage SDK and the environment\<close>

text \<open>
  A thrown error object: \<^verbatim>\<open>err.name\<close>, \<^verbatim>\<open>err.message\<close> and
  \<^verbatim>\<open>err.$metadata.httpStatusCode\<close>, each possibly absent.
\<close>

record js_error =
  err_name :: "jstring option"
  err_message :: "jstring option"
  err_httpStatusCode :: "nat option"

text \<open>\<^verbatim>\<open>String(err)\<close>, that is \<^verbatim>\<open>Error.prototype.toString\<close>.\<close>

definition error_toString :: "js_error \<Rightarrow> jstring" where
  "error_toString e =
     (let name = (case err_name e of None \<Rightarrow> js ''Error'' | Some n \<Rightarrow> n);
          msg = (case err_message e of None \<Rightarrow> [] | Some m \<Rightarrow> m)
      in if name = [] then msg else if msg = [] then name else name @ js '': '' @ msg)"

text \<open>
  The \<^verbatim>\<open>TypeError\<close> raised by a method call on \<^verbatim>\<open>undefined\<close>; the message text is
  the engine's (V8's wording here).
\<close>

definition TypeError_startsWith :: js_error where
  "TypeError_startsWith =
     \<lparr> err_name = Some (js ''TypeError''),
       err_message = Some (js ''Cannot read properties of undefined (reading 'startsWith')''),
       err_httpStatusCode = None \<rparr>"

text \<open>
  One entry of \<^verbatim>\<open>Contents\<close> in a listing. \<^verbatim>\<open>Key\<close> and \<^verbatim>\<open>Size\<close> are guarded by the
  source and may be absent; \<^verbatim>\<open>LastModified\<close> is the time value (milliseconds) of the
  \<^verbatim>\<open>Date\<close> the storage service returns for every object.
\<close>

record s3_object =
  Key :: "jstring option"
  Size :: "int option"
  LastModified :: int

record head_output =
  head_httpStatusCode :: "nat option"

record list_output =
  Contents :: "s3_object list option"
  list_httpStatusCode :: "nat option"

text \<open>\<^verbatim>\<open>req.file\<close> as the multipart middleware with memory storage provides it.\<close>

record multer_file =
  mimetype :: "jstring option"
  originalname :: "jstring option"
  buffer :: "8 word list"
  file_size :: int

text \<open>The parts of a request the handlers read: \<^verbatim>\<open>req.get('X-Client-Source')\<close> and \<^verbatim>\<open>req.file\<close>.\<close>

record request =
  x_client_source :: "jstring option"
  req_file :: "multer_file option"

record response =
  status :: nat
  body :: jsval

text \<open>
  What lies outside the program: the configuration read from the process environment,
  the clock, the answers of the object-storage service to each request, the URL signer,
  and the built-in \<^verbatim>\<open>encodeURIComponent\<close> (which raises \<^verbatim>\<open>URIError\<close> on a lone
  surrogate). Each remote operation either fails with an error or yields its output.
  When several pending operations reject, which rejection settles first is a matter of
  timing: \<open>settles_first\<close> gives, for the rejections in the order of their operations, the
  position of the one that settles first.
\<close>

record env =
  AWS_REGION :: "jstring option"
  BUCKET :: "jstring option"
  now :: int
  send_HeadBucket :: "js_error + head_output"
  send_ListObjectsV2 :: "nat \<Rightarrow> js_error + list_output"
  upload_done :: "jstring \<Rightarrow> jstring option \<Rightarrow> 8 word list \<Rightarrow> js_error + unit"
  getSignedUrl :: "jstring option \<Rightarrow> nat \<Rightarrow> js_error + jstring"
  encodeURIComponent :: "jstring \<Rightarrow> js_error + jstring"
  settles_first :: "js_error list \<Rightarrow> nat"

definition PREFIX :: jstring where
  "PREFIX = js ''uploads/''"

text \<open>
  The requests issued to the storage service, in the order they are issued:
  \<^verbatim>\<open>HeadBucket\<close>; \<^verbatim>\<open>ListObjectsV2\<close> with its \<^verbatim>\<open>Prefix\<close> and \<^verbatim>\<open>MaxKeys\<close>; the multipart
  \<^verbatim>\<open>Upload\<close> with \<^verbatim>\<open>Key\<close>, \<^verbatim>\<open>ContentType\<close> and \<^verbatim>\<open>Body\<close>; the presigner with the
  \<^verbatim>\<open>Key\<close> of its \<^verbatim>\<open>GetObject\<close> command and \<^verbatim>\<open>expiresIn\<close>. The bucket is always
  \<^verbatim>\<open>BUCKET\<close>.
\<close>

datatype s3_call =
    HeadBucketCall
  | ListObjectsV2Call jstring nat
  | UploadCall jstring "jstring option" "8 word list"
  | GetSignedUrlCall "jstring option" nat

text \<open>
  An asynchronous computation: the requests it issued, and either the error it rejected
  with or its value. \<open>io_try\<close> is \<^verbatim>\<open>try { ... } catch (err) { ... }\<close>.
\<close>

type_synonym 'a io = "s3_call list \<times> (js_error + 'a)"

definition io_return :: "'a \<Rightarrow> 'a io" where
  "io_return x = ([], Inr x)"

definition io_throw :: "js_error \<Rightarrow> 'a io" where
  "io_throw e = ([], Inl e)"

definition io_bind :: "'a io \<Rightarrow> ('a \<Rightarrow> 'b io) \<Rightarrow> 'b io" where
  "io_bind m f =
     (case snd m of
        Inl e \<Rightarrow> (fst m, Inl e)
      | Inr x \<Rightarrow> (fst m @ fst (f x), snd (f x)))"

definition io_try :: "'a io \<Rightarrow> (js_error \<Rightarrow> 'a io) \<Rightarrow> 'a io" where
  "io_try m h =
     (case snd m of
        Inl e \<Rightarrow> (fst m @ fst (h e), snd (h e))
      | Inr x \<Rightarrow> m)"

definition s3_send_HeadBucket :: "env \<Rightarrow> head_output io" where
  "s3_send_HeadBucket e = ([HeadBucketCall], send_HeadBucket e)"

definition s3_send_ListObjectsV2 :: "env \<Rightarrow> nat \<Rightarrow> list_output io" where
  "s3_send_ListObjectsV2 e maxKeys = ([ListObjectsV2Call PREFIX maxKeys], send_ListObjectsV2 e maxKeys)"

definition uploader_done :: "env \<Rightarrow> jstring \<Rightarrow> jstring option \<Rightarrow> 8 word list \<Rightarrow> unit io" where
  "uploader_done e key ct bytes = ([UploadCall key ct bytes], upload_done e key ct bytes)"

definition getSignedUrl_GetObject :: "env \<Rightarrow> jstring option \<Rightarrow> nat \<Rightarrow> jstring io" where
  "getSignedUrl_GetObject e key expiresIn = ([GetSignedUrlCall key expiresIn], getSignedUrl e key expiresIn)"

definition encodeURIComponent_io :: "env \<Rightarrow> jstring \<Rightarrow> jstring io" where
  "encodeURIComponent_io e s = ([], encodeURIComponent e s)"

text \<open>
  \<^verbatim>\<open>Promise.all(xs.map(async item => ...))\<close>: every callback is started, so every
  request is issued, in the order of the items. When every callback fulfils, the result
  is the list of all values in the order of the items; when some reject, the result is
  the rejection that settles first in time, which \<open>pick\<close> selects among the rejections
  (the index is reduced modulo their number, so that it always names one of them).
\<close>

fun rejections :: "(js_error + 'a) list \<Rightarrow> js_error list" where
  "rejections [] = []"
| "rejections (Inl e # rs) = e # rejections rs"
| "rejections (Inr x # rs) = rejections rs"

fun fulfilled :: "(js_error + 'a) list \<Rightarrow> 'a list" where
  "fulfilled [] = []"
| "fulfilled (Inl e # rs) = fulfilled rs"
| "fulfilled (Inr x # rs) = x # fulfilled rs"

definition all_results :: "(js_error list \<Rightarrow> nat) \<Rightarrow> (js_error + 'a) list \<Rightarrow> js_error + 'a list" where
  "all_results pick rs =
     (case rejections rs of
        [] \<Rightarrow> Inr (fulfilled rs)
      | e # es \<Rightarrow> Inl ((e # es) ! (pick (e # es) mod length (e # es))))"

definition Promise_all :: "(js_error list \<Rightarrow> nat) \<Rightarrow> 'a io list \<Rightarrow> 'a list io" where
  "Promise_all pick ms = (concat (map fst ms), all_results pick (map snd ms))"

section \<open>Array operations of the listing\<close>

text \<open>
  \<^verbatim>\<open>Array.prototype.sort(cmp)\<close> is a stable sort: \<open>a\<close> stays before \<open>b\<close> unless
  \<open>cmp a b > 0\<close>. With a consistent comparator the result is unique; it is computed
  here by stable insertion.
\<close>

fun insert_by :: "('a \<Rightarrow> 'a \<Rightarrow> int) \<Rightarrow> 'a \<Rightarrow> 'a list \<Rightarrow> 'a list" where
  "insert_by cmp x [] = [x]"
| "insert_by cmp x (y # ys) = (if cmp x y \<le> 0 then x # y # ys else y # insert_by cmp x ys)"

definition js_sort :: "('a \<Rightarrow> 'a \<Rightarrow> int) \<Rightarrow> 'a list \<Rightarrow> 'a list" where
  "js_sort cmp xs = foldr (insert_by cmp) xs []"

text \<open>\<^verbatim>\<open>(a, b) => new Date(b.LastModified) - new Date(a.LastModified)\<close>\<close>

definition by_LastModified_desc :: "s3_object \<Rightarrow> s3_object \<Rightarrow> int" where
  "by_LastModified_desc a b = LastModified b - LastModified a"

text \<open>
  \<^verbatim>\<open>xs.slice(0, fin)\<close> for an integral \<open>fin\<close>: a negative \<open>fin\<close> counts from the end
  of the array.
\<close>

definition slice0 :: "'a list \<Rightarrow> int \<Rightarrow> 'a list" where
  "slice0 xs fin =
     (if fin < 0 then take (nat (max (int (length xs) + fin) 0)) xs
      else take (nat (min fin (int (length xs)))) xs)"

text \<open>\<^verbatim>\<open>o => o.Key && o.Size > 0\<close>\<close>

definition realObject :: "s3_object \<Rightarrow> bool" where
  "realObject obj = (truthy (Key obj) \<and> (case Size obj of None \<Rightarrow> False | Some n \<Rightarrow> n > 0))"

text \<open>\<^verbatim>\<open>list?.Contents || []\<close>\<close>

definition contents_or_empty :: "list_output \<Rightarrow> s3_object list" where
  "contents_or_empty data = (case Contents data of None \<Rightarrow> [] | Some cs \<Rightarrow> cs)"

text \<open>\<^verbatim>\<open>v.startsWith(p)\<close> where \<open>v\<close> may be \<^verbatim>\<open>undefined\<close>: the property access throws.\<close>

definition call_startsWith :: "jstring option \<Rightarrow> jstring \<Rightarrow> bool io" where
  "call_startsWith v p =
     (case v of None \<Rightarrow> io_throw TypeError_startsWith | Some s \<Rightarrow> io_return (startsWith s p))"

text \<open>\<^verbatim>\<open>err?.message || String(err)\<close> (and \<^verbatim>\<open>String(err?.message || err)\<close>, the same string).\<close>

definition message_or_string :: "js_error \<Rightarrow> jstring" where
  "message_or_string err = or_default (err_message err) (error_toString err)"

text \<open>The properties of an object, for the spread \<^verbatim>\<open>...result\<close>.\<close>

fun props :: "jsval \<Rightarrow> (string \<times> jsval) list" where
  "props (JObj ps) = ps"
| "props _ = []"

section \<open>The storage gateway: services/s3FileService.js\<close>

text \<open>
  \<^verbatim>\<open>debugS3Connectivity\<close>: two \<^verbatim>\<open>try/catch\<close> blocks in sequence, each pushing one
  record onto \<^verbatim>\<open>result.steps\<close>.
\<close>

definition debugS3Connectivity :: "env \<Rightarrow> jsval io" where
  "debugS3Connectivity e =
     io_bind
       (io_try
          (io_bind (s3_send_HeadBucket e) (\<lambda>head.
             io_return
               [JObj [(''step'', JStr (js ''HeadBucket'')),
                      (''ok'', JBool True),
                      (''httpStatus'', num_val (head_httpStatusCode head))]]))
          (\<lambda>err.
             io_return
               [JObj [(''step'', JStr (js ''HeadBucket'')),
                      (''ok'', JBool False),
                      (''code'', str_val (err_name err)),
                      (''message'', str_val (err_message err))]]))
       (\<lambda>steps1.
     io_bind
       (io_try
          (io_bind (s3_send_ListObjectsV2 e 5) (\<lambda>list.
             io_return
               (steps1 @
                [JObj [(''step'', JStr (js ''ListObjectsV2'')),
                       (''ok'', JBool True),
                       (''count'', JNum (int (length (contents_or_empty list)))),
                       (''keys'', JArr (map (\<lambda>obj. str_val (Key obj)) (contents_or_empty list)))]])))
          (\<lambda>err.
             io_return
               (steps1 @
                [JObj [(''step'', JStr (js ''ListObjectsV2'')),
                       (''ok'', JBool False),
                       (''code'', str_val (err_name err)),
                       (''message'', str_val (err_message err))]])))
       (\<lambda>steps.
     io_return
       (JObj [(''region'', str_val (AWS_REGION e)),
              (''bucket'', str_val (BUCKET e)),
              (''steps'', JArr steps)])))"

definition uploadVideoToS3 :: "env \<Rightarrow> multer_file \<Rightarrow> jsval io" where
  "uploadVideoToS3 e f =
     (let ct = mimetype f;
          original = or_default (originalname f) (js ''video.mp4'');
          sanitized = sanitize original;
          key = PREFIX @ number_toString (now e) @ js ''-'' @ sanitized
      in io_bind (uploader_done e key ct (buffer f)) (\<lambda>_.
         io_bind (encodeURIComponent_io e key) (\<lambda>enc.
           let url = js ''https://'' @ template (BUCKET e) @ js ''.s3.'' @ template (AWS_REGION e)
                       @ js ''.amazonaws.com/'' @ enc
           in io_return
                (JObj [(''key'', JStr key),
                       (''url'', JStr url),
                       (''contentType'', str_val ct),
                       (''size'', JNum (file_size f))]))))"

definition file_entry :: "s3_object \<Rightarrow> jstring \<Rightarrow> jsval" where
  "file_entry item url =
     JObj [(''key'', str_val (Key item)),
           (''size'', int_val (Size item)),
           (''lastModified'', JDate (LastModified item)),
           (''url'', JStr url)]"

text \<open>\<^verbatim>\<open>listRecentFiles(limit = 5)\<close>: an absent argument takes the default.\<close>

definition listRecentFiles :: "env \<Rightarrow> int option \<Rightarrow> jsval list io" where
  "listRecentFiles e limit_arg =
     (let limit = (case limit_arg of None \<Rightarrow> 5 | Some n \<Rightarrow> n)
      in io_bind (s3_send_ListObjectsV2 e 200) (\<lambda>data.
           case Contents data of
             None \<Rightarrow> io_return []
           | Some contents \<Rightarrow>
               let realObjects = filter realObject contents;
                   recent = slice0 (js_sort by_LastModified_desc realObjects) limit
               in Promise_all (settles_first e)
                    (map (\<lambda>item.
                       io_bind (getSignedUrl_GetObject e (Key item) 300) (\<lambda>url.
                         io_return (file_entry item url)))
                     recent)))"

section \<open>The handlers of the split variant: controllers/\<close>

definition uploadVideo :: "env \<Rightarrow> request \<Rightarrow> response io" where
  "uploadVideo e req =
     io_try
       (let source = x_client_source req
        in if source \<noteq> Some (js ''stickers-recorder'') then
             io_return \<lparr> status = 400, body = JObj [(''error'', JStr (js ''Invalid upload source''))] \<rparr>
           else
             (case req_file req of
                None \<Rightarrow>
                  io_return \<lparr> status = 400, body = JObj [(''error'', JStr (js ''No file uploaded.''))] \<rparr>
              | Some f \<Rightarrow>
                  io_bind (call_startsWith (mimetype f) (js ''video/'')) (\<lambda>isVideo.
                    if \<not> isVideo then
                      io_return \<lparr> status = 400, body = JObj [(''error'', JStr (js ''File must be a video.''))] \<rparr>
                    else
                      io_bind (uploadVideoToS3 e f) (\<lambda>result.
                        io_return
                          \<lparr> status = 200,
                            body = JObj ([(''message'', JStr (js ''Upload successful''))]
                                         @ props result @ [(''source'', str_val source)]) \<rparr>))))
       (\<lambda>err.
          io_return
            \<lparr> status = 500,
              body = JObj [(''error'', JStr (js ''Upload failed'')),
                           (''details'', str_val (err_message err))] \<rparr>)"

definition getFiles :: "env \<Rightarrow> response io" where
  "getFiles e =
     io_try
       (io_bind (listRecentFiles e (Some 5)) (\<lambda>files.
          io_return
            \<lparr> status = 200,
              body = JObj [(''count'', JNum (int (length files))), (''files'', JArr files)] \<rparr>))
       (\<lambda>err.
          io_return
            \<lparr> status = 500,
              body = JObj [(''error'', JStr (js ''Failed to list files'')),
                           (''details'', str_val (err_message err))] \<rparr>)"

section \<open>The monolithic variant: the handlers registered in server.js\<close>

text \<open>\<^verbatim>\<open>app.get('/debug/s3', ...)\<close>\<close>

definition app_get_debug_s3 :: "env \<Rightarrow> response io" where
  "app_get_debug_s3 e =
     io_bind
       (io_try
          (io_bind (s3_send_HeadBucket e) (\<lambda>head.
             io_return
               [JObj [(''step'', JStr (js ''HeadBucket'')),
                      (''ok'', JBool True),
                      (''httpStatus'', num_or_null (head_httpStatusCode head))]]))
          (\<lambda>err.
             io_return
               [JObj [(''step'', JStr (js ''HeadBucket'')),
                      (''ok'', JBool False),
                      (''code'', str_val (err_name err)),
                      (''message'', str_val (err_message err)),
                      (''httpStatus'', num_or_null (err_httpStatusCode err))]]))
       (\<lambda>steps1.
     io_bind
       (io_try
          (io_bind (s3_send_ListObjectsV2 e 5) (\<lambda>list.
             io_return
               (steps1 @
                [JObj [(''step'', JStr (js ''ListObjectsV2'')),
                       (''ok'', JBool True),
                       (''httpStatus'', num_val (list_httpStatusCode list)),
                       (''count'', JNum (int (length (contents_or_empty list)))),
                       (''keys'', JArr (map (\<lambda>obj. str_val (Key obj)) (contents_or_empty list)))]])))
          (\<lambda>err.
             io_return
               (steps1 @
                [JObj [(''step'', JStr (js ''ListObjectsV2'')),
                       (''ok'', JBool False),
                       (''code'', str_val (err_name err)),
                       (''message'', str_val (err_message err)),
                       (''httpStatus'', num_or_null (err_httpStatusCode err))]])))
       (\<lambda>steps.
     io_return
       \<lparr> status = 200,
         body = JObj [(''region'', str_val (AWS_REGION e)),
                      (''bucket'', str_val (BUCKET e)),
                      (''steps'', JArr steps)] \<rparr>))"

text \<open>\<^verbatim>\<open>app.post('/upload', upload.single('video'), ...)\<close>; 0x22 is the double quote.\<close>

definition app_post_upload :: "env \<Rightarrow> request \<Rightarrow> response io" where
  "app_post_upload e req =
     io_try
       (let clientSource = x_client_source req
        in if clientSource \<noteq> Some (js ''stickers-recorder'') then
             io_return \<lparr> status = 400, body = JObj [(''error'', JStr (js ''Invalid upload source''))] \<rparr>
           else
             (case req_file req of
                None \<Rightarrow>
                  io_return
                    \<lparr> status = 400,
                      body = JObj [(''error'',
                        JStr (js ''No file uploaded (expected field '' @ [0x22] @ js ''video'' @ [0x22]
                              @ js '').''))] \<rparr>
              | Some f \<Rightarrow>
                  let ct = or_default (mimetype f) []
                  in if \<not> startsWith ct (js ''video/'') then
                       io_return
                         \<lparr> status = 400,
                           body = JObj [(''error'', JStr (js ''Invalid content type: '' @ ct))] \<rparr>
                     else
                       let original = or_default (originalname f)
                             (if str_includes ct (js ''mp4'') then js ''video.mp4'' else js ''video.webm'');
                           sanitized = sanitize original;
                           key = PREFIX @ number_toString (now e) @ js ''-'' @ sanitized
                       in io_bind (uploader_done e key (Some ct) (buffer f)) (\<lambda>_.
                          io_bind (encodeURIComponent_io e key) (\<lambda>enc.
                            let url = js ''https://'' @ template (BUCKET e) @ js ''.s3.''
                                        @ template (AWS_REGION e) @ js ''.amazonaws.com/'' @ enc
                            in io_return
                                 \<lparr> status = 200,
                                   body = JObj [(''message'', JStr (js ''Upload successful'')),
                                                (''key'', JStr key),
                                                (''url'', JStr url),
                                                (''contentType'', JStr ct),
                                                (''size'', JNum (file_size f)),
                                                (''source'', str_val clientSource)] \<rparr>))))
       (\<lambda>err.
          io_return
            \<lparr> status = 500,
              body = JObj [(''error'', JStr (js ''Upload failed'')),
                           (''details'', JStr (message_or_string err))] \<rparr>)"

text \<open>\<^verbatim>\<open>app.get('/files', ...)\<close>; the signer is called with \<^verbatim>\<open>expiresIn: 60 * 5\<close>.\<close>

definition app_get_files :: "env \<Rightarrow> response io" where
  "app_get_files e =
     io_try
       (io_bind (s3_send_ListObjectsV2 e 200) (\<lambda>data.
          if (case Contents data of None \<Rightarrow> True | Some contents \<Rightarrow> length contents = 0) then
            io_return
              \<lparr> status = 200,
                body = JObj [(''message'', JStr (js ''No files found in uploads/'')),
                             (''bucket'', str_val (BUCKET e))] \<rparr>
          else
            let realObjects = filter realObject (contents_or_empty data);
                recent = slice0 (js_sort by_LastModified_desc realObjects) 5
            in io_bind
                 (Promise_all (settles_first e)
                    (map (\<lambda>item.
                       io_bind (getSignedUrl_GetObject e (Key item) (60 * 5)) (\<lambda>url.
                         io_return (file_entry item url)))
                     recent))
                 (\<lambda>files.
                    io_return
                      \<lparr> status = 200,
                        body = JObj [(''count'', JNum (int (length files))),
                                     (''bucket'', str_val (BUCKET e)),
                                     (''prefix'', JStr PREFIX),
                                     (''files'', JArr files)] \<rparr>)))
       (\<lambda>err.
          io_return
            \<lparr> status = 500,
              body = JObj [(''error'', JStr (js ''Failed to list files'')),
                           (''code'', JStr (or_default (err_name err) [])),
                           (''details'', JStr (message_or_string err)),
                           (''bucket'', str_val (BUCKET e)),
                           (''prefix'', JStr PREFIX)] \<rparr>)"

section \<open>Observations on traces and reports\<close>

text \<open>The calls to the URL signer in a trace, each with its key and its \<^verbatim>\<open>expiresIn\<close>.\<close>

fun sign_calls :: "s3_call list \<Rightarrow> (jstring option \<times> nat) list" where
  "sign_calls [] = []"
| "sign_calls (GetSignedUrlCall k n # cs) = (k, n) # sign_calls cs"
| "sign_calls (c # cs) = sign_calls cs"

text \<open>The step records of a diagnostics report.\<close>

definition steps_of :: "jsval \<Rightarrow> jsval list" where
  "steps_of report = (case field ''steps'' report of Some (JArr ss) \<Rightarrow> ss | _ \<Rightarrow> [])"

section \<open>Example environments and requests\<close>

text \<open>
  A healthy environment with an empty bucket. Its \<^verbatim>\<open>encodeURIComponent\<close> escapes the
  slash and is exact on the keys used below (unreserved characters and slashes only).
\<close>

definition env_example :: env where
  "env_example =
     \<lparr> AWS_REGION = Some (js ''ap-southeast-1''),
       BUCKET = Some (js ''pod-videos''),
       now = 1700000000000,
       send_HeadBucket = Inr \<lparr> head_httpStatusCode = Some 200 \<rparr>,
       send_ListObjectsV2 = (\<lambda>maxKeys. Inr \<lparr> Contents = None, list_httpStatusCode = Some 200 \<rparr>),
       upload_done = (\<lambda>key ct bytes. Inr ()),
       getSignedUrl = (\<lambda>key expiresIn. Inr (js ''https://signed.example/'' @ template key)),
       encodeURIComponent = (\<lambda>s. Inr (concat (map (\<lambda>c. if c = 0x2F then js ''%2F'' else [c]) s))),
       settles_first = (\<lambda>errs. 0) \<rparr>"

definition AccessDenied :: js_error where
  "AccessDenied =
     \<lparr> err_name = Some (js ''AccessDenied''),
       err_message = Some (js ''Access Denied''),
       err_httpStatusCode = Some 403 \<rparr>"

text \<open>The bucket check is refused while listing works: one object under the prefix.\<close>

definition obj_a :: s3_object where
  "obj_a = \<lparr> Key = Some (js ''uploads/1-a.mp4''), Size = Some 10, LastModified = 1000 \<rparr>"

definition env_head_denied :: env where
  "env_head_denied =
     env_example
       \<lparr> send_HeadBucket := Inl AccessDenied,
         send_ListObjectsV2 := (\<lambda>maxKeys. Inr \<lparr> Contents = Some [obj_a], list_httpStatusCode = Some 200 \<rparr>) \<rparr>"

text \<open>Every request to the storage service is refused.\<close>

definition env_all_denied :: env where
  "env_all_denied =
     env_example
       \<lparr> send_HeadBucket := Inl AccessDenied,
         send_ListObjectsV2 := (\<lambda>maxKeys. Inl AccessDenied) \<rparr>"

text \<open>
  Ten objects with distinct modification times and positive sizes, in the order the
  service lists them (by key), followed by a zero-byte folder marker.
\<close>

definition obj_n :: "nat \<Rightarrow> int \<Rightarrow> s3_object" where
  "obj_n i t = \<lparr> Key = Some (js ''uploads/'' @ dec_digits i @ js ''.mp4''), Size = Some 7, LastModified = t \<rparr>"

definition ten_objects :: "s3_object list" where
  "ten_objects =
     [obj_n 0 500, obj_n 1 900, obj_n 2 100, obj_n 3 700, obj_n 4 300,
      obj_n 5 1000, obj_n 6 200, obj_n 7 800, obj_n 8 400, obj_n 9 600]"

definition folder_marker :: s3_object where
  "folder_marker = \<lparr> Key = Some (js ''uploads/''), Size = Some 0, LastModified = 2000 \<rparr>"

definition env_ten :: env where
  "env_ten =
     env_example
       \<lparr> send_ListObjectsV2 :=
           (\<lambda>maxKeys. Inr \<lparr> Contents = Some (take maxKeys ten_objects), list_httpStatusCode = Some 200 \<rparr>) \<rparr>"

definition env_one :: env where
  "env_one =
     env_example
       \<lparr> send_ListObjectsV2 :=
           (\<lambda>maxKeys. Inr \<lparr> Contents = Some [folder_marker, obj_a], list_httpStatusCode = Some 200 \<rparr>) \<rparr>"

definition clip_file :: multer_file where
  "clip_file =
     \<lparr> mimetype = Some (js ''video/mp4''),
       originalname = Some (js ''my clip.mp4''),
       buffer = [0x00, 0x00, 0x00, 0x18],
       file_size = 4 \<rparr>"

definition trusted_request :: "multer_file \<Rightarrow> request" where
  "trusted_request f = \<lparr> x_client_source = Some (js ''stickers-recorder''), req_file = Some f \<rparr>"

text \<open>Requests without the header, and with a header that differs in letter case.\<close>

definition anonymous_request :: request where
  "anonymous_request = \<lparr> x_client_source = None, req_file = Some clip_file \<rparr>"

definition untrusted_request :: request where
  "untrusted_request = \<lparr> x_client_source = Some (js ''Stickers-Recorder''), req_file = Some clip_file \<rparr>"

text \<open>A file declared as a PDF, and one whose \<^verbatim>\<open>mimetype\<close> is \<^verbatim>\<open>undefined\<close>.\<close>

definition pdf_file :: multer_file where
  "pdf_file = clip_file \<lparr> mimetype := Some (js ''application/pdf'') \<rparr>"

definition untyped_file :: multer_file where
  "untyped_file = clip_file \<lparr> mimetype := None \<rparr>"

text \<open>The signed URL the example environments hand out for a key.\<close>

definition example_url :: "s3_object \<Rightarrow> jstring" where
  "example_url item = js ''https://signed.example/'' @ template (Key item)"

text \<open>The same bucket with a signer that refuses the key of the folder marker.\<close>

definition env_marker_refused :: env where
  "env_marker_refused =
     env_one
       \<lparr> getSignedUrl :=
           (\<lambda>key expiresIn.
              if key = Some (js ''uploads/'') then Inl AccessDenied
              else Inr (js ''https://signed.example/'' @ template key)) \<rparr>"

section \<open>Sanitising a file name\<close>

lemma runs_Nil_iff: "runs xs = [] \<longleftrightarrow> xs = []"
  by (cases xs) (auto split: list.splits)

lemma hd_runs_Cons: "\<exists>r rs. runs (c # cs) = (c # r) # rs"
  by (auto split: list.splits)

text \<open>The runs partition the name: concatenated, they give it back.\<close>

lemma concat_runs: "concat (runs xs) = xs"
  by (induction xs) (auto split: list.splits)

lemma runs_nonempty: "r \<in> set (runs xs) \<Longrightarrow> r \<noteq> []"
  by (induction xs arbitrary: r) (auto split: list.splits if_splits)

text \<open>Every run is of one kind: all whitespace or none.\<close>

lemma runs_uniform: "r \<in> set (runs xs) \<Longrightarrow> c \<in> set r \<Longrightarrow> is_space c = is_space (hd r)"
proof (induction xs arbitrary: r c)
  case Nil
  then show ?case by simp
next
  case (Cons a xs)
  show ?case
  proof (cases "runs xs")
    case Nil
    with Cons.prems show ?thesis by simp
  next
    case (Cons r0 rs)
    have r0: "\<And>d. d \<in> set r0 \<Longrightarrow> is_space d = is_space (hd r0)"
      using Cons.IH[of r0] Cons by simp
    have rest: "\<And>q d. q \<in> set rs \<Longrightarrow> d \<in> set q \<Longrightarrow> is_space d = is_space (hd q)"
      using Cons.IH Cons by simp
    from Cons.prems Cons show ?thesis
      by (auto split: if_splits simp: r0 rest)
  qed
qed

text \<open>The runs are maximal: neighbouring runs are of different kinds.\<close>

lemma runs_maximal: "successively (\<lambda>r s. is_space (hd r) \<noteq> is_space (hd s)) (runs xs)"
proof (induction xs)
  case Nil
  then show ?case by simp
next
  case (Cons a xs)
  show ?case
  proof (cases "runs xs")
    case Nil
    then show ?thesis by simp
  next
    case outer: (Cons r0 rs)
    with Cons.IH show ?thesis
      by (cases rs) auto
  qed
qed

lemma sanitize_spec_Nil: "sanitize_spec [] = []"
  by (simp add: sanitize_spec_def)

lemma sanitize_spec_other:
  assumes "\<not> is_space c"
  shows "sanitize_spec (c # cs) = c # sanitize_spec cs"
proof (cases "runs cs")
  case Nil
  with assms show ?thesis by (simp add: sanitize_spec_def)
next
  case (Cons r rs)
  with assms show ?thesis by (auto simp: sanitize_spec_def)
qed

lemma sanitize_spec_space:
  assumes "is_space c"
  shows "sanitize_spec (c # cs) = 0x5F # sanitize_spec (dropWhile is_space cs)"
  using assms
proof (induction cs arbitrary: c)
  case Nil
  then show ?case by (simp add: sanitize_spec_def js_def)
next
  case (Cons d ds)
  obtain r rs where r: "runs (d # ds) = (d # r) # rs"
    using hd_runs_Cons by blast
  show ?case
  proof (cases "is_space d")
    case True
    have "sanitize_spec (c # d # ds) = sanitize_spec (d # ds)"
      using Cons.prems True r unfolding sanitize_spec_def
      by (simp del: runs.simps(2) add: runs.simps(2)[of c])
    also have "\<dots> = 0x5F # sanitize_spec (dropWhile is_space ds)"
      using Cons.IH[OF True] .
    finally show ?thesis using True by simp
  next
    case False
    have "sanitize_spec (c # d # ds) = 0x5F # sanitize_spec (d # ds)"
      using Cons.prems False r unfolding sanitize_spec_def
      by (simp del: runs.simps(2) add: runs.simps(2)[of c] js_def)
    then show ?thesis using False by simp
  qed
qed

text \<open>The replace of the source does what the specification's words say.\<close>

lemma sanitize_eq_spec: "sanitize N = sanitize_spec N"
  by (induction N rule: sanitize.induct)
     (simp_all add: sanitize_spec_Nil sanitize_spec_other sanitize_spec_space)

section \<open>The storage key of an upload\<close>

lemma or_default_Some: "N \<noteq> [] \<Longrightarrow> or_default (Some N) d = N"
  by (simp add: or_default_def)

lemma or_default_absent: "v = None \<or> v = Some [] \<Longrightarrow> or_default v d = d"
  by (auto simp: or_default_def)

lemma fst_uploadVideoToS3:
  "fst (uploadVideoToS3 e f) =
     [UploadCall (PREFIX @ number_toString (now e) @ js ''-''
                    @ sanitize (or_default (originalname f) (js ''video.mp4'')))
        (mimetype f) (buffer f)]"
  by (simp add: uploadVideoToS3_def Let_def uploader_done_def encodeURIComponent_io_def io_bind_def
      io_return_def split: sum.splits)

lemma key_uploadVideoToS3:
  "snd (uploadVideoToS3 e f) = Inr r \<Longrightarrow>
   field ''key'' r = Some (JStr (PREFIX @ number_toString (now e) @ js ''-''
                    @ sanitize (or_default (originalname f) (js ''video.mp4''))))"
  by (auto simp: uploadVideoToS3_def Let_def uploader_done_def encodeURIComponent_io_def io_bind_def
      io_return_def split: sum.splits)

lemma fst_app_post_upload:
  assumes "x_client_source req = Some (js ''stickers-recorder'')" "req_file req = Some f"
    "startsWith (or_default (mimetype f) []) (js ''video/'')"
  shows "fst (app_post_upload e req) =
     [UploadCall (PREFIX @ number_toString (now e) @ js ''-''
                    @ sanitize (or_default (originalname f)
                        (if str_includes (or_default (mimetype f) []) (js ''mp4'')
                         then js ''video.mp4'' else js ''video.webm'')))
        (Some (or_default (mimetype f) [])) (buffer f)]"
  using assms
  by (auto simp: app_post_upload_def Let_def uploader_done_def encodeURIComponent_io_def io_bind_def
      io_return_def io_try_def split: sum.splits)

lemma sanitize_spec_my_clip: "sanitize_spec (js ''my clip.mp4'') = js ''my_clip.mp4''"
  by (simp add: sanitize_spec_def js_def is_space_def)

lemma sanitize_spec_default: "sanitize_spec (js ''video.mp4'') = js ''video.mp4''"
  by (simp add: sanitize_spec_def js_def is_space_def)

text \<open>
  Claim C1. An upload at millisecond time \<open>now e\<close> of a file with original name \<open>N\<close> is
  stored under the key \<^verbatim>\<open>"uploads/" + T + "-" + sanitize(N)\<close>, where \<open>sanitize\<close>
  replaces every maximal run of whitespace by one underscore (\<open>sanitize_spec\<close>): this is
  the \<^verbatim>\<open>Key\<close> of the upload request of the gateway and of the monolithic handler
  (once the request passed validation), and the \<^verbatim>\<open>key\<close> of the gateway's result. The
  name \<^verbatim>\<open>my clip.mp4\<close> is sanitised to \<^verbatim>\<open>my_clip.mp4\<close>. A file has an original name
  when the multipart middleware hands one over, and then it is not empty; for a file
  without one, \<^verbatim>\<open>file.originalname || 'video.mp4'\<close> makes the gateway use the name
  \<^verbatim>\<open>video.mp4\<close> in its place.
\<close>

theorem upload_key:
  "(originalname f = Some N \<and> N \<noteq> [] \<longrightarrow>
      fst (uploadVideoToS3 e f) =
        [UploadCall (js ''uploads/'' @ number_toString (now e) @ js ''-'' @ sanitize_spec N)
           (mimetype f) (buffer f)]
    \<and> (\<forall>r. snd (uploadVideoToS3 e f) = Inr r \<longrightarrow>
          field ''key'' r = Some (JStr (js ''uploads/'' @ number_toString (now e) @ js ''-'' @ sanitize_spec N)))
    \<and> (x_client_source req = Some (js ''stickers-recorder'') \<and> req_file req = Some f
         \<and> mimetype f = Some ct \<and> startsWith ct (js ''video/'') \<longrightarrow>
        fst (app_post_upload e req) =
          [UploadCall (js ''uploads/'' @ number_toString (now e) @ js ''-'' @ sanitize_spec N)
             (Some ct) (buffer f)]))
   \<and> (originalname f = None \<or> originalname f = Some [] \<longrightarrow>
        fst (uploadVideoToS3 e f) =
          [UploadCall (js ''uploads/'' @ number_toString (now e) @ js ''-video.mp4'')
             (mimetype f) (buffer f)])
   \<and> sanitize_spec (js ''my clip.mp4'') = js ''my_clip.mp4''"
proof -
  have named: "fst (uploadVideoToS3 e f) =
        [UploadCall (js ''uploads/'' @ number_toString (now e) @ js ''-'' @ sanitize_spec N)
           (mimetype f) (buffer f)]
    \<and> (\<forall>r. snd (uploadVideoToS3 e f) = Inr r \<longrightarrow>
          field ''key'' r = Some (JStr (js ''uploads/'' @ number_toString (now e) @ js ''-'' @ sanitize_spec N)))
    \<and> (x_client_source req = Some (js ''stickers-recorder'') \<and> req_file req = Some f
         \<and> mimetype f = Some ct \<and> startsWith ct (js ''video/'') \<longrightarrow>
        fst (app_post_upload e req) =
          [UploadCall (js ''uploads/'' @ number_toString (now e) @ js ''-'' @ sanitize_spec N)
             (Some ct) (buffer f)])"
    if N: "originalname f = Some N" "N \<noteq> []"
  proof -
    have name: "or_default (originalname f) d = N" for d
      using N by (simp add: or_default_Some)
    have a: "fst (uploadVideoToS3 e f) =
             [UploadCall (js ''uploads/'' @ number_toString (now e) @ js ''-'' @ sanitize_spec N)
                (mimetype f) (buffer f)]"
      by (simp add: fst_uploadVideoToS3 name sanitize_eq_spec PREFIX_def)
    have b: "\<forall>r. snd (uploadVideoToS3 e f) = Inr r \<longrightarrow>
               field ''key'' r = Some (JStr (js ''uploads/'' @ number_toString (now e) @ js ''-'' @ sanitize_spec N))"
      using key_uploadVideoToS3[of e f] by (simp add: name sanitize_eq_spec PREFIX_def)
    have c: "fst (app_post_upload e req) =
             [UploadCall (js ''uploads/'' @ number_toString (now e) @ js ''-'' @ sanitize_spec N)
                (Some ct) (buffer f)]"
      if v: "x_client_source req = Some (js ''stickers-recorder'')" "req_file req = Some f"
         "mimetype f = Some ct" "startsWith ct (js ''video/'')"
    proof -
      have ct: "or_default (mimetype f) [] = ct"
        using v by (cases "ct = []") (simp_all add: or_default_def)
      have "startsWith (or_default (mimetype f) []) (js ''video/'')"
        using v ct by simp
      from fst_app_post_upload[OF v(1) v(2) this, of e] show ?thesis
        by (simp add: ct name sanitize_eq_spec PREFIX_def)
    qed
    from a b c show ?thesis by blast
  qed
  have unnamed: "fst (uploadVideoToS3 e f) =
          [UploadCall (js ''uploads/'' @ number_toString (now e) @ js ''-video.mp4'')
             (mimetype f) (buffer f)]"
    if "originalname f = None \<or> originalname f = Some []"
  proof -
    have "or_default (originalname f) (js ''video.mp4'') = js ''video.mp4''"
      using that by (rule or_default_absent)
    moreover have "js ''-'' @ js ''video.mp4'' = js ''-video.mp4''"
      by (simp add: js_def)
    ultimately show ?thesis
      by (simp add: fst_uploadVideoToS3 sanitize_eq_spec sanitize_spec_default PREFIX_def)
  qed
  from named unnamed sanitize_spec_my_clip show ?thesis by blast
qed

text \<open>The file \<^verbatim>\<open>my clip.mp4\<close> uploaded at time 1700000000000.\<close>

theorem upload_key_witness:
  "originalname clip_file = Some (js ''my clip.mp4'') \<and> js ''my clip.mp4'' \<noteq> []
   \<and> fst (uploadVideoToS3 env_example clip_file) =
       [UploadCall (js ''uploads/1700000000000-my_clip.mp4'') (Some (js ''video/mp4'')) [0x00, 0x00, 0x00, 0x18]]
   \<and> fst (app_post_upload env_example (trusted_request clip_file)) =
       [UploadCall (js ''uploads/1700000000000-my_clip.mp4'') (Some (js ''video/mp4'')) [0x00, 0x00, 0x00, 0x18]]"
proof -
  have n: "originalname clip_file = Some (js ''my clip.mp4'')"
    by (simp add: clip_file_def)
  have ne: "js ''my clip.mp4'' \<noteq> []"
    by (simp add: js_def)
  have t: "number_toString (now env_example) = js ''1700000000000''"
    by (simp add: env_example_def number_toString_def dec_digits.simps js_def)
  have key: "js ''uploads/'' @ js ''1700000000000'' @ js ''-'' @ js ''my_clip.mp4''
      = js ''uploads/1700000000000-my_clip.mp4''"
    by (simp add: js_def)
  have pre: "x_client_source (trusted_request clip_file) = Some (js ''stickers-recorder'')
      \<and> req_file (trusted_request clip_file) = Some clip_file
      \<and> mimetype clip_file = Some (js ''video/mp4'') \<and> startsWith (js ''video/mp4'') (js ''video/'')"
    by (simp add: trusted_request_def clip_file_def startsWith_def js_def)
  have bytes: "buffer clip_file = [0x00, 0x00, 0x00, 0x18]"
    by (simp add: clip_file_def)
  from upload_key[of clip_file "js ''my clip.mp4''" env_example "trusted_request clip_file" "js ''video/mp4''"]
       n ne pre
  show ?thesis
    unfolding sanitize_spec_my_clip t key bytes by simp
qed

section \<open>Validation in the upload handlers\<close>

text \<open>
  Claim C3. When the \<^verbatim>\<open>X-Client-Source\<close> header is absent or is not exactly
  \<^verbatim>\<open>stickers-recorder\<close>, the upload handler (of either variant) answers 400 and issues no
  request to the storage service: the upload operation is not invoked.
\<close>

theorem upload_rejects_untrusted_source:
  assumes "x_client_source req \<noteq> Some (js ''stickers-recorder'')"
  shows "uploadVideo e req =
           ([], Inr \<lparr> status = 400, body = JObj [(''error'', JStr (js ''Invalid upload source''))] \<rparr>)
       \<and> app_post_upload e req =
           ([], Inr \<lparr> status = 400, body = JObj [(''error'', JStr (js ''Invalid upload source''))] \<rparr>)"
  using assms
  by (simp add: uploadVideo_def app_post_upload_def Let_def io_try_def io_return_def)

text \<open>A request without the header, and one whose header differs in letter case.\<close>

theorem upload_rejects_untrusted_source_witness:
  "x_client_source anonymous_request \<noteq> Some (js ''stickers-recorder'')
   \<and> fst (uploadVideo env_example anonymous_request) = []
   \<and> status (projr (snd (uploadVideo env_example anonymous_request))) = 400
   \<and> fst (app_post_upload env_example anonymous_request) = []
   \<and> status (projr (snd (app_post_upload env_example anonymous_request))) = 400
   \<and> x_client_source untrusted_request \<noteq> Some (js ''stickers-recorder'')
   \<and> fst (uploadVideo env_example untrusted_request) = []
   \<and> status (projr (snd (uploadVideo env_example untrusted_request))) = 400
   \<and> fst (app_post_upload env_example untrusted_request) = []
   \<and> status (projr (snd (app_post_upload env_example untrusted_request))) = 400"
proof -
  have a: "x_client_source anonymous_request \<noteq> Some (js ''stickers-recorder'')"
    by (simp add: anonymous_request_def)
  have u: "x_client_source untrusted_request \<noteq> Some (js ''stickers-recorder'')"
    by (simp add: untrusted_request_def js_def)
  from upload_rejects_untrusted_source[OF a, of env_example]
       upload_rejects_untrusted_source[OF u, of env_example] a u
  show ?thesis by simp
qed

text \<open>
  Claim C4. With the correct header and an attached file whose declared MIME type \<open>m\<close>
  does not start with \<^verbatim>\<open>video/\<close>, the upload handler (of either variant) answers 400
  and issues no request to the storage service, whatever the bytes of the file are.
\<close>

theorem upload_rejects_non_video:
  assumes "x_client_source req = Some (js ''stickers-recorder'')"
      and "req_file req = Some f"
      and "mimetype f = Some m"
      and "\<not> startsWith m (js ''video/'')"
  shows "uploadVideo e (req \<lparr> req_file := Some (f \<lparr> buffer := bytes \<rparr>) \<rparr>) =
           ([], Inr \<lparr> status = 400, body = JObj [(''error'', JStr (js ''File must be a video.''))] \<rparr>)
       \<and> app_post_upload e (req \<lparr> req_file := Some (f \<lparr> buffer := bytes \<rparr>) \<rparr>) =
           ([], Inr \<lparr> status = 400, body = JObj [(''error'', JStr (js ''Invalid content type: '' @ m))] \<rparr>)"
proof -
  have ct: "or_default (Some m) [] = m"
    by (simp add: or_default_def)
  show ?thesis
    using assms
    by (simp add: uploadVideo_def app_post_upload_def Let_def io_try_def io_return_def io_bind_def
        call_startsWith_def ct)
qed

text \<open>A file declared as \<^verbatim>\<open>application/pdf\<close>.\<close>

theorem upload_rejects_non_video_witness:
  "x_client_source (trusted_request pdf_file) = Some (js ''stickers-recorder'')
   \<and> req_file (trusted_request pdf_file) = Some pdf_file
   \<and> mimetype pdf_file = Some (js ''application/pdf'')
   \<and> \<not> startsWith (js ''application/pdf'') (js ''video/'')
   \<and> fst (uploadVideo env_example (trusted_request pdf_file)) = []
   \<and> status (projr (snd (uploadVideo env_example (trusted_request pdf_file)))) = 400
   \<and> fst (app_post_upload env_example (trusted_request pdf_file)) = []
   \<and> status (projr (snd (app_post_upload env_example (trusted_request pdf_file)))) = 400"
proof -
  have h1: "x_client_source (trusted_request pdf_file) = Some (js ''stickers-recorder'')"
    and h2: "req_file (trusted_request pdf_file) = Some pdf_file"
    by (simp_all add: trusted_request_def)
  have h3: "mimetype pdf_file = Some (js ''application/pdf'')"
    by (simp add: pdf_file_def clip_file_def)
  have h4: "\<not> startsWith (js ''application/pdf'') (js ''video/'')"
    by (simp add: startsWith_def js_def)
  have same: "trusted_request pdf_file \<lparr> req_file := Some (pdf_file \<lparr> buffer := buffer pdf_file \<rparr>) \<rparr>
      = trusted_request pdf_file"
    by (simp add: trusted_request_def)
  from upload_rejects_non_video[OF h1 h2 h3 h4, of env_example "buffer pdf_file"] h1 h2 h3 h4
  show ?thesis unfolding same by simp
qed

text \<open>
  Claim C10. In the split variant, with the correct header and an attached file whose
  \<^verbatim>\<open>mimetype\<close> is \<^verbatim>\<open>undefined\<close>, the call of \<^verbatim>\<open>startsWith\<close> throws; the handler
  catches it and answers 500 with error \<^verbatim>\<open>Upload failed\<close>, not 400, and the upload
  operation is not invoked.
\<close>

theorem upload_missing_mimetype:
  assumes "x_client_source req = Some (js ''stickers-recorder'')"
      and "req_file req = Some f"
      and "mimetype f = None"
  shows "uploadVideo e req =
           ([], Inr \<lparr> status = 500,
                      body = JObj [(''error'', JStr (js ''Upload failed'')),
                                   (''details'', str_val (err_message TypeError_startsWith))] \<rparr>)"
  using assms
  by (simp add: uploadVideo_def Let_def io_try_def io_return_def io_bind_def io_throw_def
      call_startsWith_def)

text \<open>The example upload without a declared type.\<close>

theorem upload_missing_mimetype_witness:
  "x_client_source (trusted_request untyped_file) = Some (js ''stickers-recorder'')
   \<and> req_file (trusted_request untyped_file) = Some untyped_file
   \<and> mimetype untyped_file = None
   \<and> fst (uploadVideo env_example (trusted_request untyped_file)) = []
   \<and> status (projr (snd (uploadVideo env_example (trusted_request untyped_file)))) = 500
   \<and> field ''error'' (body (projr (snd (uploadVideo env_example (trusted_request untyped_file)))))
       = Some (JStr (js ''Upload failed''))"
proof -
  have h1: "x_client_source (trusted_request untyped_file) = Some (js ''stickers-recorder'')"
    and h2: "req_file (trusted_request untyped_file) = Some untyped_file"
    by (simp_all add: trusted_request_def)
  have h3: "mimetype untyped_file = None"
    by (simp add: untyped_file_def)
  from upload_missing_mimetype[OF h1 h2 h3, of env_example] h1 h2 h3
  show ?thesis by simp
qed

section \<open>Listing the recent files\<close>

lemma fst_io_bind:
  "fst (io_bind m g) = fst m @ (case snd m of Inl err \<Rightarrow> [] | Inr x \<Rightarrow> fst (g x))"
  by (simp add: io_bind_def split: sum.splits)

lemma snd_io_bind:
  "snd (io_bind m g) = (case snd m of Inl err \<Rightarrow> Inl err | Inr x \<Rightarrow> snd (g x))"
  by (simp add: io_bind_def split: sum.splits)

lemma fst_io_try:
  "fst (io_try m h) = fst m @ (case snd m of Inl err \<Rightarrow> fst (h err) | Inr x \<Rightarrow> [])"
  by (simp add: io_try_def split: sum.splits)

lemma snd_io_try:
  "snd (io_try m h) = (case snd m of Inl err \<Rightarrow> snd (h err) | Inr x \<Rightarrow> Inr x)"
  by (cases m) (simp add: io_try_def split: sum.splits)

lemma io_return_simps: "fst (io_return x) = []" "snd (io_return x) = Inr x"
  by (simp_all add: io_return_def)

lemma insert_by_LastModified:
  "insert_by by_LastModified_desc x ys = insort_key (\<lambda>obj. - LastModified obj) x ys"
  by (induction ys) (simp_all add: by_LastModified_desc_def)

lemma js_sort_LastModified:
  "js_sort by_LastModified_desc xs = sort_key (\<lambda>obj. - LastModified obj) xs"
  by (induction xs) (simp_all add: js_sort_def insert_by_LastModified)

lemma mset_js_sort: "mset (js_sort by_LastModified_desc xs) = mset xs"
  by (simp add: js_sort_LastModified)

lemma set_js_sort: "set (js_sort by_LastModified_desc xs) = set xs"
  by (simp add: js_sort_LastModified)

lemma length_js_sort: "length (js_sort by_LastModified_desc xs) = length xs"
  by (simp add: js_sort_LastModified)

lemma sorted_js_sort:
  "sorted_wrt (\<lambda>a b. LastModified a \<ge> LastModified b) (js_sort by_LastModified_desc xs)"
proof -
  have "sorted (map (\<lambda>obj. - LastModified obj) (sort_key (\<lambda>obj. - LastModified obj) xs))"
    by (rule sorted_sort_key)
  then show ?thesis
    by (simp add: js_sort_LastModified sorted_wrt_map)
qed

lemma stable_js_sort:
  "filter (\<lambda>obj. LastModified obj = t) (js_sort by_LastModified_desc xs)
     = filter (\<lambda>obj. LastModified obj = t) xs"
  using sort_key_stable[of "\<lambda>obj. - LastModified obj" "- t" xs]
  by (simp add: js_sort_LastModified)

lemma slice0_nat: "slice0 xs (int n) = take n xs"
  by (simp add: slice0_def min_def)

lemma realObject_iff:
  "realObject obj \<longleftrightarrow> (\<exists>k. Key obj = Some k \<and> k \<noteq> []) \<and> (\<exists>s. Size obj = Some s \<and> 0 < s)"
  by (auto simp: realObject_def truthy_def split: option.splits)

lemma rejections_map_Inr: "rejections (map Inr xs) = []"
  by (induction xs) simp_all

lemma fulfilled_map_Inr: "fulfilled (map Inr xs) = xs"
  by (induction xs) simp_all

lemma rejections_Nil: "rejections rs = [] \<Longrightarrow> rs = map Inr (fulfilled rs)"
  by (induction rs rule: rejections.induct) simp_all

lemma rejections_Nil_iff: "rejections rs = [] \<longleftrightarrow> (\<forall>r\<in>set rs. \<not> isl r)"
  by (induction rs rule: rejections.induct) simp_all

text \<open>\<^verbatim>\<open>Promise.all\<close> fulfils exactly when every promise does, with their values in order.\<close>

lemma all_results_Inr_iff: "all_results pick rs = Inr xs \<longleftrightarrow> rs = map Inr xs"
proof
  assume "all_results pick rs = Inr xs"
  then have "rejections rs = []" and "xs = fulfilled rs"
    by (auto simp: all_results_def split: list.splits)
  then show "rs = map Inr xs"
    using rejections_Nil by blast
next
  assume "rs = map Inr xs"
  then show "all_results pick rs = Inr xs"
    by (simp add: all_results_def rejections_map_Inr fulfilled_map_Inr)
qed

lemma isl_all_results: "isl (all_results pick rs) \<longleftrightarrow> (\<exists>r\<in>set rs. isl r)"
proof -
  have "isl (all_results pick rs) \<longleftrightarrow> rejections rs \<noteq> []"
    by (simp add: all_results_def split: list.splits)
  then show ?thesis
    by (simp add: rejections_Nil_iff)
qed

lemma Promise_all_Nil: "Promise_all pick [] = ([], Inr [])"
  by (simp add: Promise_all_def all_results_def)

lemma fst_sign_item:
  "fst (io_bind (getSignedUrl_GetObject e k x) (\<lambda>url. io_return (file_entry item url)))
     = [GetSignedUrlCall k x]"
  by (simp add: io_bind_def getSignedUrl_GetObject_def io_return_def split: sum.splits)

lemma snd_sign_item:
  "snd (io_bind (getSignedUrl_GetObject e k x) (\<lambda>url. io_return (file_entry item url)))
     = (case getSignedUrl e k x of Inl err \<Rightarrow> Inl err | Inr url \<Rightarrow> Inr (file_entry item url))"
  by (simp add: io_bind_def getSignedUrl_GetObject_def io_return_def split: sum.splits)

lemma fst_sign_all:
  "fst (Promise_all pick (map (\<lambda>item.
          io_bind (getSignedUrl_GetObject e (Key item) x) (\<lambda>url. io_return (file_entry item url))) xs))
     = map (\<lambda>item. GetSignedUrlCall (Key item) x) xs"
  by (induction xs) (simp_all add: Promise_all_def fst_sign_item)

lemma snd_sign_all_ok:
  assumes "\<forall>item\<in>set xs. getSignedUrl e (Key item) x = Inr (u item)"
  shows "snd (Promise_all pick (map (\<lambda>item.
          io_bind (getSignedUrl_GetObject e (Key item) x) (\<lambda>url. io_return (file_entry item url))) xs))
     = Inr (map (\<lambda>item. file_entry item (u item)) xs)"
  using assms by (simp add: Promise_all_def all_results_Inr_iff snd_sign_item comp_def)

lemma sign_results_keys:
  "map (\<lambda>item. case getSignedUrl e (Key item) x of
                   Inl err \<Rightarrow> Inl err | Inr url \<Rightarrow> Inr (file_entry item url)) xs = map Inr files
   \<Longrightarrow> map (field ''key'') files = map (\<lambda>item. Some (str_val (Key item))) xs"
proof (induction xs arbitrary: files)
  case Nil
  then show ?case by simp
next
  case (Cons a xs)
  from Cons.prems obtain y ys where files: "files = y # ys"
    by (cases files) auto
  with Cons.prems obtain url where "getSignedUrl e (Key a) x = Inr url" "y = file_entry a url"
    by (auto split: sum.splits)
  moreover from Cons.prems files have "map (field ''key'') ys = map (\<lambda>item. Some (str_val (Key item))) xs"
    by (intro Cons.IH) simp
  ultimately show ?case
    using files by (simp add: file_entry_def)
qed

lemma snd_sign_all_keys:
  "snd (Promise_all pick (map (\<lambda>item.
          io_bind (getSignedUrl_GetObject e (Key item) x) (\<lambda>url. io_return (file_entry item url))) xs))
     = Inr files \<Longrightarrow> map (field ''key'') files = map (\<lambda>item. Some (str_val (Key item))) xs"
  by (rule sign_results_keys[of e x])
     (simp add: Promise_all_def all_results_Inr_iff snd_sign_item comp_def)

lemma sign_calls_map:
  "sign_calls (map (\<lambda>item. GetSignedUrlCall (Key item) x) xs) = map (\<lambda>item. (Key item, x)) xs"
  by (induction xs) simp_all

lemma newest_first:
  assumes "sorted_wrt (\<lambda>a b. LastModified a \<ge> LastModified b) S"
      and "distinct (map LastModified S)"
  shows "sorted_wrt (\<lambda>a b. LastModified a > LastModified b) (take n S)"
    and "\<forall>x\<in>set S - set (take n S). \<forall>y\<in>set (take n S). LastModified x < LastModified y"
proof -
  have strict: "sorted_wrt (\<lambda>a b. LastModified a > LastModified b) S"
    using assms
  proof (induction S)
    case Nil
    then show ?case by simp
  next
    case (Cons a S)
    then show ?case by (auto simp: order_less_le image_iff)
  qed
  have split: "sorted_wrt (\<lambda>a b. LastModified a > LastModified b) (take n S @ drop n S)"
    using strict by simp
  then show "sorted_wrt (\<lambda>a b. LastModified a > LastModified b) (take n S)"
    unfolding sorted_wrt_append by blast
  have "set S = set (take n S) \<union> set (drop n S)"
    by (metis append_take_drop_id set_append)
  with split show "\<forall>x\<in>set S - set (take n S). \<forall>y\<in>set (take n S). LastModified x < LastModified y"
    unfolding sorted_wrt_append by blast
qed

lemma snd_listRecentFiles:
  assumes "send_ListObjectsV2 e 200 = Inr data" and "Contents data = Some L"
      and "\<forall>item\<in>set (take n (js_sort by_LastModified_desc (filter realObject L))).
             getSignedUrl e (Key item) 300 = Inr (u item)"
  shows "snd (listRecentFiles e (Some (int n)))
     = Inr (map (\<lambda>item. file_entry item (u item))
              (take n (js_sort by_LastModified_desc (filter realObject L))))"
  using snd_sign_all_ok[OF assms(3)] assms(1,2)
  by (simp add: listRecentFiles_def Let_def s3_send_ListObjectsV2_def io_bind_def slice0_nat)

text \<open>The entry built for a kept object shows its key, its size and its time.\<close>

lemma file_entry_kept:
  assumes "Key item = Some k" and "Size item = Some s"
  shows "file_entry item url =
           JObj [(''key'', JStr (the (Key item))),
                 (''size'', JNum (the (Size item))),
                 (''lastModified'', JDate (LastModified item)),
                 (''url'', JStr url)]"
  using assms by (simp add: file_entry_def str_val_def int_val_def)

text \<open>
  Claim C2. For a listing with contents \<open>L\<close> and a limit \<open>n\<close>, \<open>listRecentFiles\<close>
  keeps the entries of \<open>L\<close> that have a key (present and not empty) and a size greater
  than 0, sorts them by last-modified time in descending order (entries of equal time
  stay in the order of the listing), and returns the first \<open>n\<close> of them, all when fewer
  remain: for each of these, in that order, an entry with the key, the size and the time
  of the object and its signed URL. No entry of size 0 is returned. When the entries of
  \<open>L\<close> have distinct times, keys and positive sizes, the result is strictly descending
  and every entry left out is older than every entry returned: of 10 such objects, a
  limit of 3 returns the 3 most recently modified. (The signer is taken to succeed, with
  URL \<open>u item\<close>, on the entries that are returned; it is not asked about any other.)
\<close>

theorem listRecentFiles_most_recent:
  assumes "send_ListObjectsV2 e 200 = Inr data" and "Contents data = Some L"
      and "\<forall>item\<in>set (take n (js_sort by_LastModified_desc (filter realObject L))).
             getSignedUrl e (Key item) 300 = Inr (u item)"
  shows "let kept = filter (\<lambda>obj. (\<exists>k. Key obj = Some k \<and> k \<noteq> []) \<and> (\<exists>s. Size obj = Some s \<and> 0 < s)) L;
             S = js_sort by_LastModified_desc (filter realObject L)
         in mset S = mset kept
          \<and> sorted_wrt (\<lambda>a b. LastModified a \<ge> LastModified b) S
          \<and> (\<forall>t. filter (\<lambda>obj. LastModified obj = t) S = filter (\<lambda>obj. LastModified obj = t) kept)
          \<and> listRecentFiles e (Some (int n)) =
              (ListObjectsV2Call PREFIX 200 # map (\<lambda>item. GetSignedUrlCall (Key item) 300) (take n S),
               Inr (map (\<lambda>item. JObj [(''key'', JStr (the (Key item))),
                                       (''size'', JNum (the (Size item))),
                                       (''lastModified'', JDate (LastModified item)),
                                       (''url'', JStr (u item))])
                      (take n S)))
          \<and> length (take n S) = min n (length kept)
          \<and> (\<forall>obj\<in>set (take n S). obj \<in> set L \<and> (\<exists>k. Key obj = Some k \<and> k \<noteq> [])
                 \<and> (\<exists>s. Size obj = Some s \<and> 0 < s))
          \<and> (distinct (map LastModified L) \<and> set kept = set L \<longrightarrow>
               sorted_wrt (\<lambda>a b. LastModified a > LastModified b) (take n S)
             \<and> (\<forall>x\<in>set L - set (take n S). \<forall>y\<in>set (take n S). LastModified x < LastModified y)
             \<and> (length L = 10 \<and> n = 3 \<longrightarrow> length (take n S) = 3))"
proof -
  define kept where "kept = filter (\<lambda>obj. (\<exists>k. Key obj = Some k \<and> k \<noteq> []) \<and> (\<exists>s. Size obj = Some s \<and> 0 < s)) L"
  define S where "S = js_sort by_LastModified_desc (filter realObject L)"
  have real: "filter realObject L = kept"
    unfolding kept_def by (rule filter_cong) (simp_all add: realObject_iff)
  have m: "mset S = mset kept"
    by (simp add: S_def mset_js_sort real)
  have s: "sorted_wrt (\<lambda>a b. LastModified a \<ge> LastModified b) S"
    unfolding S_def by (rule sorted_js_sort)
  have st: "\<forall>t. filter (\<lambda>obj. LastModified obj = t) S = filter (\<lambda>obj. LastModified obj = t) kept"
    by (simp add: S_def stable_js_sort real)
  have len: "length (take n S) = min n (length kept)"
    using m by (metis length_take min.commute size_mset)
  have setS: "set S = set kept"
    using m by (metis set_mset_mset)
  have sub: "\<forall>obj\<in>set (take n S). obj \<in> set L \<and> (\<exists>k. Key obj = Some k \<and> k \<noteq> [])
                 \<and> (\<exists>s. Size obj = Some s \<and> 0 < s)"
  proof
    fix obj assume "obj \<in> set (take n S)"
    then have "obj \<in> set kept" using setS by (auto dest: in_set_takeD)
    then show "obj \<in> set L \<and> (\<exists>k. Key obj = Some k \<and> k \<noteq> []) \<and> (\<exists>s. Size obj = Some s \<and> 0 < s)"
      unfolding kept_def by simp
  qed
  have entries: "map (\<lambda>item. file_entry item (u item)) (take n S)
      = map (\<lambda>item. JObj [(''key'', JStr (the (Key item))),
                          (''size'', JNum (the (Size item))),
                          (''lastModified'', JDate (LastModified item)),
                          (''url'', JStr (u item))]) (take n S)"
  proof (rule map_cong[OF refl])
    fix item assume "item \<in> set (take n S)"
    with sub obtain k sz where "Key item = Some k" "Size item = Some sz"
      by blast
    then show "file_entry item (u item)
      = JObj [(''key'', JStr (the (Key item))), (''size'', JNum (the (Size item))),
              (''lastModified'', JDate (LastModified item)), (''url'', JStr (u item))]"
      by (rule file_entry_kept)
  qed
  have tr: "fst (listRecentFiles e (Some (int n)))
      = ListObjectsV2Call PREFIX 200 # map (\<lambda>item. GetSignedUrlCall (Key item) 300) (take n S)"
    using assms(1,2)
    by (simp add: listRecentFiles_def fst_io_bind s3_send_ListObjectsV2_def slice0_nat
        fst_sign_all S_def)
  have "snd (listRecentFiles e (Some (int n))) = Inr (map (\<lambda>item. file_entry item (u item)) (take n S))"
    unfolding S_def by (rule snd_listRecentFiles[OF assms])
  with tr entries have r: "listRecentFiles e (Some (int n)) =
              (ListObjectsV2Call PREFIX 200 # map (\<lambda>item. GetSignedUrlCall (Key item) 300) (take n S),
               Inr (map (\<lambda>item. JObj [(''key'', JStr (the (Key item))),
                                       (''size'', JNum (the (Size item))),
                                       (''lastModified'', JDate (LastModified item)),
                                       (''url'', JStr (u item))])
                      (take n S)))"
    by (simp add: prod_eq_iff)
  have d: "sorted_wrt (\<lambda>a b. LastModified a > LastModified b) (take n S)
             \<and> (\<forall>x\<in>set L - set (take n S). \<forall>y\<in>set (take n S). LastModified x < LastModified y)
             \<and> (length L = 10 \<and> n = 3 \<longrightarrow> length (take n S) = 3)"
    if dist: "distinct (map LastModified L)" and all: "set kept = set L"
  proof -
    have "\<forall>x\<in>set L. x \<in> set kept"
      using all by simp
    then have "kept = L"
      unfolding kept_def by (simp add: filter_id_conv)
    with m have mS: "mset S = mset L" by simp
    then have "mset (map LastModified S) = mset (map LastModified L)" by simp
    with dist have dS: "distinct (map LastModified S)"
      by (metis mset_eq_imp_distinct_iff)
    have "set S = set L" using mS by (metis set_mset_mset)
    with newest_first[OF s dS, of n] len \<open>kept = L\<close> show ?thesis by auto
  qed
  from m s st r len sub d show ?thesis
    unfolding kept_def[symmetric] S_def[symmetric] Let_def by blast
qed

text \<open>
  Claim C5. When the listing under the prefix returns no contents (no \<^verbatim>\<open>Contents\<close>, or
  an empty one), \<open>listRecentFiles\<close> returns the empty sequence as its value: it does not
  reject.
\<close>

theorem listRecentFiles_empty:
  assumes "send_ListObjectsV2 e 200 = Inr data"
      and "Contents data = None \<or> Contents data = Some []"
  shows "listRecentFiles e limit = ([ListObjectsV2Call PREFIX 200], Inr [])"
  using assms
  by (auto simp: listRecentFiles_def Let_def s3_send_ListObjectsV2_def io_bind_def io_return_def
      Promise_all_Nil js_sort_def slice0_def)

text \<open>The empty bucket of the example environment.\<close>

theorem listRecentFiles_empty_witness:
  "send_ListObjectsV2 env_example 200 = Inr \<lparr> Contents = None, list_httpStatusCode = Some 200 \<rparr>
   \<and> listRecentFiles env_example (Some 5) = ([ListObjectsV2Call PREFIX 200], Inr [])"
proof -
  have h: "send_ListObjectsV2 env_example 200 = Inr \<lparr> Contents = None, list_httpStatusCode = Some 200 \<rparr>"
    by (simp add: env_example_def)
  from listRecentFiles_empty[OF h, of "Some 5"] h show ?thesis by simp
qed

lemma obj_n_simps:
  "LastModified (obj_n i t) = t" "realObject (obj_n i t)"
  by (simp_all add: obj_n_def realObject_def truthy_def js_def)

lemma example_sign:
  "getSignedUrl env_example k x = Inr (js ''https://signed.example/'' @ template k)"
  by (simp add: env_example_def)

text \<open>
  Ten objects with distinct times and a limit of 3; and a listing with a zero-byte folder
  marker, which is left out although it is the newest entry, with a signer that refuses
  the marker's key.
\<close>

theorem listRecentFiles_most_recent_witness:
  "send_ListObjectsV2 env_ten 200 = Inr \<lparr> Contents = Some ten_objects, list_httpStatusCode = Some 200 \<rparr>
   \<and> length ten_objects = 10
   \<and> distinct (map LastModified ten_objects)
   \<and> snd (listRecentFiles env_ten (Some 3))
       = Inr [JObj [(''key'', JStr (js ''uploads/5.mp4'')), (''size'', JNum 7),
                    (''lastModified'', JDate 1000),
                    (''url'', JStr (js ''https://signed.example/uploads/5.mp4''))],
              JObj [(''key'', JStr (js ''uploads/1.mp4'')), (''size'', JNum 7),
                    (''lastModified'', JDate 900),
                    (''url'', JStr (js ''https://signed.example/uploads/1.mp4''))],
              JObj [(''key'', JStr (js ''uploads/7.mp4'')), (''size'', JNum 7),
                    (''lastModified'', JDate 800),
                    (''url'', JStr (js ''https://signed.example/uploads/7.mp4''))]]
   \<and> send_ListObjectsV2 env_marker_refused 200
       = Inr \<lparr> Contents = Some [folder_marker, obj_a], list_httpStatusCode = Some 200 \<rparr>
   \<and> Size folder_marker = Some 0
   \<and> isl (getSignedUrl env_marker_refused (Key folder_marker) 300)
   \<and> listRecentFiles env_marker_refused (Some 5)
       = ([ListObjectsV2Call PREFIX 200, GetSignedUrlCall (Some (js ''uploads/1-a.mp4'')) 300],
          Inr [JObj [(''key'', JStr (js ''uploads/1-a.mp4'')), (''size'', JNum 10),
                     (''lastModified'', JDate 1000),
                     (''url'', JStr (js ''https://signed.example/uploads/1-a.mp4''))]])"
proof -
  have l10: "send_ListObjectsV2 env_ten 200 = Inr \<lparr> Contents = Some ten_objects, list_httpStatusCode = Some 200 \<rparr>"
    by (simp add: env_ten_def ten_objects_def)
  have c10: "Contents \<lparr> Contents = Some ten_objects, list_httpStatusCode = Some 200 \<rparr> = Some ten_objects"
    by simp
  have len: "length ten_objects = 10"
    by (simp add: ten_objects_def)
  have dist: "distinct (map LastModified ten_objects)"
    by (simp add: ten_objects_def obj_n_simps)
  have S10: "js_sort by_LastModified_desc (filter realObject ten_objects)
      = [obj_n 5 1000, obj_n 1 900, obj_n 7 800, obj_n 3 700, obj_n 9 600,
         obj_n 0 500, obj_n 8 400, obj_n 4 300, obj_n 6 200, obj_n 2 100]"
    by (simp add: ten_objects_def obj_n_simps js_sort_def by_LastModified_desc_def)
  have s10: "\<forall>item\<in>set (take 3 (js_sort by_LastModified_desc (filter realObject ten_objects))).
      getSignedUrl env_ten (Key item) 300 = Inr (example_url item)"
    by (simp add: env_ten_def example_sign example_url_def)
  have e5: "Key (obj_n 5 1000) = Some (js ''uploads/5.mp4'') \<and> Size (obj_n 5 1000) = Some 7
      \<and> example_url (obj_n 5 1000) = js ''https://signed.example/uploads/5.mp4''"
    by (simp add: obj_n_def example_url_def template_def dec_digits.simps js_def)
  have e1: "Key (obj_n 1 900) = Some (js ''uploads/1.mp4'') \<and> Size (obj_n 1 900) = Some 7
      \<and> example_url (obj_n 1 900) = js ''https://signed.example/uploads/1.mp4''"
    by (simp add: obj_n_def example_url_def template_def dec_digits.simps js_def)
  have e7: "Key (obj_n 7 800) = Some (js ''uploads/7.mp4'') \<and> Size (obj_n 7 800) = Some 7
      \<and> example_url (obj_n 7 800) = js ''https://signed.example/uploads/7.mp4''"
    by (simp add: obj_n_def example_url_def template_def dec_digits.simps js_def)
  have l1: "send_ListObjectsV2 env_marker_refused 200
      = Inr \<lparr> Contents = Some [folder_marker, obj_a], list_httpStatusCode = Some 200 \<rparr>"
    by (simp add: env_marker_refused_def env_one_def)
  have c1: "Contents \<lparr> Contents = Some [folder_marker, obj_a], list_httpStatusCode = Some 200 \<rparr>
      = Some [folder_marker, obj_a]"
    by simp
  have z: "Size folder_marker = Some 0"
    by (simp add: folder_marker_def)
  have refused: "isl (getSignedUrl env_marker_refused (Key folder_marker) 300)"
    by (simp add: env_marker_refused_def folder_marker_def)
  have real: "realObject obj_a" "\<not> realObject folder_marker"
    by (simp_all add: folder_marker_def obj_a_def realObject_def truthy_def js_def)
  have S1: "js_sort by_LastModified_desc (filter realObject [folder_marker, obj_a]) = [obj_a]"
    by (simp add: real js_sort_def)
  have ea: "Key obj_a = Some (js ''uploads/1-a.mp4'') \<and> Size obj_a = Some 10 \<and> LastModified obj_a = 1000
      \<and> example_url obj_a = js ''https://signed.example/uploads/1-a.mp4''"
    by (simp add: obj_a_def example_url_def template_def js_def)
  have s1: "\<forall>item\<in>set (take 5 (js_sort by_LastModified_desc (filter realObject [folder_marker, obj_a]))).
      getSignedUrl env_marker_refused (Key item) 300 = Inr (example_url item)"
    unfolding S1
    by (simp add: env_marker_refused_def env_one_def example_sign example_url_def obj_a_def js_def)
  have r10: "snd (listRecentFiles env_ten (Some 3))
       = Inr [JObj [(''key'', JStr (js ''uploads/5.mp4'')), (''size'', JNum 7),
                    (''lastModified'', JDate 1000),
                    (''url'', JStr (js ''https://signed.example/uploads/5.mp4''))],
              JObj [(''key'', JStr (js ''uploads/1.mp4'')), (''size'', JNum 7),
                    (''lastModified'', JDate 900),
                    (''url'', JStr (js ''https://signed.example/uploads/1.mp4''))],
              JObj [(''key'', JStr (js ''uploads/7.mp4'')), (''size'', JNum 7),
                    (''lastModified'', JDate 800),
                    (''url'', JStr (js ''https://signed.example/uploads/7.mp4''))]]"
  proof -
    note listRecentFiles_most_recent[OF l10 c10 s10, unfolded Let_def,
        THEN conjunct2, THEN conjunct2, THEN conjunct2, THEN conjunct1, unfolded S10]
    then have "snd (listRecentFiles env_ten (Some (int 3))) =
        Inr (map (\<lambda>item. JObj [(''key'', JStr (the (Key item))),
                                (''size'', JNum (the (Size item))),
                                (''lastModified'', JDate (LastModified item)),
                                (''url'', JStr (example_url item))])
               (take 3 [obj_n 5 1000, obj_n 1 900, obj_n 7 800, obj_n 3 700, obj_n 9 600,
                        obj_n 0 500, obj_n 8 400, obj_n 4 300, obj_n 6 200, obj_n 2 100]))"
      by (simp only: snd_conv)
    then show ?thesis
      by (simp add: e5 e1 e1[unfolded One_nat_def] e7 obj_n_simps)
  qed
  have r1: "listRecentFiles env_marker_refused (Some 5)
       = ([ListObjectsV2Call PREFIX 200, GetSignedUrlCall (Some (js ''uploads/1-a.mp4'')) 300],
          Inr [JObj [(''key'', JStr (js ''uploads/1-a.mp4'')), (''size'', JNum 10),
                     (''lastModified'', JDate 1000),
                     (''url'', JStr (js ''https://signed.example/uploads/1-a.mp4''))]])"
  proof -
    note listRecentFiles_most_recent[OF l1 c1 s1, unfolded Let_def,
        THEN conjunct2, THEN conjunct2, THEN conjunct2, THEN conjunct1, unfolded S1]
    then show ?thesis
      by (simp add: ea)
  qed
  from l10 len dist r10 l1 z refused r1 show ?thesis by simp
qed

section \<open>The calls to the URL signer\<close>

lemma js_sort_Nil: "js_sort cmp [] = []"
  by (simp add: js_sort_def)

lemma slice0_5: "slice0 xs 5 = take 5 xs"
  using slice0_nat[of xs 5] by simp

lemma fst_listRecentFiles:
  "fst (listRecentFiles e (Some (int n))) =
     ListObjectsV2Call PREFIX 200 #
     map (\<lambda>item. GetSignedUrlCall (Key item) 300)
       (take n (js_sort by_LastModified_desc (filter realObject
          (case send_ListObjectsV2 e 200 of Inl err \<Rightarrow> [] | Inr data \<Rightarrow> contents_or_empty data))))"
proof (cases "send_ListObjectsV2 e 200")
  case (Inl err)
  then show ?thesis
    by (simp add: listRecentFiles_def fst_io_bind s3_send_ListObjectsV2_def js_sort_Nil)
next
  case (Inr data)
  then show ?thesis
    by (cases "Contents data")
       (simp_all add: listRecentFiles_def fst_io_bind s3_send_ListObjectsV2_def js_sort_Nil
          io_return_simps fst_sign_all slice0_nat contents_or_empty_def)
qed

lemma fst_app_get_files:
  "fst (app_get_files e) =
     ListObjectsV2Call PREFIX 200 #
     map (\<lambda>item. GetSignedUrlCall (Key item) 300)
       (take 5 (js_sort by_LastModified_desc (filter realObject
          (case send_ListObjectsV2 e 200 of Inl err \<Rightarrow> [] | Inr data \<Rightarrow> contents_or_empty data))))"
proof (cases "send_ListObjectsV2 e 200")
  case (Inl err)
  then show ?thesis
    by (simp add: app_get_files_def fst_io_try fst_io_bind snd_io_bind s3_send_ListObjectsV2_def
        js_sort_Nil io_return_simps)
next
  case (Inr data)
  show ?thesis
  proof (cases "case Contents data of None \<Rightarrow> True | Some contents \<Rightarrow> length contents = 0")
    case True
    then have "contents_or_empty data = []"
      by (auto simp: contents_or_empty_def split: option.splits)
    with Inr True show ?thesis
      by (simp add: app_get_files_def fst_io_try fst_io_bind snd_io_bind s3_send_ListObjectsV2_def
          js_sort_Nil io_return_simps)
  next
    case False
    with Inr show ?thesis
      by (simp add: app_get_files_def fst_io_try fst_io_bind snd_io_bind s3_send_ListObjectsV2_def
          io_return_simps fst_sign_all slice0_5 split: sum.splits)
  qed
qed

text \<open>
  Claim C6, as amended. In both variants the URL signer is called once for each entry of
  the final, truncated listing (the first \<open>n\<close>, or 5, of the kept entries in descending
  order of time) and for no other listed object, each time with an expiry of 300 seconds:
  the monolithic variant passes \<^verbatim>\<open>60 * 5\<close>. The entries returned carry exactly the keys
  that were signed.
\<close>

theorem signer_expiry:
  "let listed = (case send_ListObjectsV2 e 200 of Inl err \<Rightarrow> [] | Inr data \<Rightarrow> contents_or_empty data);
       S = js_sort by_LastModified_desc (filter realObject listed)
   in sign_calls (fst (listRecentFiles e (Some (int n)))) = map (\<lambda>item. (Key item, 300)) (take n S)
    \<and> sign_calls (fst (app_get_files e)) = map (\<lambda>item. (Key item, 300)) (take 5 S)
    \<and> (\<forall>files. snd (listRecentFiles e (Some (int n))) = Inr files \<longrightarrow>
          map (field ''key'') files
            = map (\<lambda>(k, x). Some (str_val k)) (sign_calls (fst (listRecentFiles e (Some (int n))))))
    \<and> (\<forall>r files. snd (app_get_files e) = Inr r \<and> field ''files'' (body r) = Some (JArr files) \<longrightarrow>
          map (field ''key'') files
            = map (\<lambda>(k, x). Some (str_val k)) (sign_calls (fst (app_get_files e))))"
proof -
  define listed where
    "listed = (case send_ListObjectsV2 e 200 of Inl err \<Rightarrow> [] | Inr data \<Rightarrow> contents_or_empty data)"
  define S where "S = js_sort by_LastModified_desc (filter realObject listed)"
  have a: "sign_calls (fst (listRecentFiles e (Some (int n)))) = map (\<lambda>item. (Key item, 300)) (take n S)"
    by (simp add: fst_listRecentFiles sign_calls_map S_def listed_def)
  have b: "sign_calls (fst (app_get_files e)) = map (\<lambda>item. (Key item, 300)) (take 5 S)"
    by (simp add: fst_app_get_files sign_calls_map S_def listed_def)
  have c: "map (field ''key'') files
            = map (\<lambda>(k, x). Some (str_val k)) (sign_calls (fst (listRecentFiles e (Some (int n)))))"
    if "snd (listRecentFiles e (Some (int n))) = Inr files" for files
  proof (cases "send_ListObjectsV2 e 200")
    case (Inl err)
    with that show ?thesis
      by (simp add: listRecentFiles_def snd_io_bind s3_send_ListObjectsV2_def)
  next
    case (Inr data)
    show ?thesis
    proof (cases "Contents data")
      case None
      with that Inr have "files = []"
        by (simp add: listRecentFiles_def snd_io_bind s3_send_ListObjectsV2_def io_return_simps)
      with None Inr show ?thesis
        unfolding a by (simp add: S_def listed_def contents_or_empty_def js_sort_Nil)
    next
      case (Some L)
      with that Inr have "snd (Promise_all (settles_first e) (map (\<lambda>item.
          io_bind (getSignedUrl_GetObject e (Key item) 300) (\<lambda>url. io_return (file_entry item url)))
          (take n (js_sort by_LastModified_desc (filter realObject L))))) = Inr files"
        by (simp add: listRecentFiles_def snd_io_bind s3_send_ListObjectsV2_def slice0_nat)
      from snd_sign_all_keys[OF this] Some Inr show ?thesis
        unfolding a by (simp add: S_def listed_def contents_or_empty_def comp_def)
    qed
  qed
  have d: "map (field ''key'') files
            = map (\<lambda>(k, x). Some (str_val k)) (sign_calls (fst (app_get_files e)))"
    if r: "snd (app_get_files e) = Inr r" and f: "field ''files'' (body r) = Some (JArr files)" for r files
  proof (cases "send_ListObjectsV2 e 200")
    case (Inl err)
    with r f show ?thesis
      by (auto simp: app_get_files_def snd_io_try snd_io_bind s3_send_ListObjectsV2_def io_return_simps)
  next
    case (Inr data)
    show ?thesis
    proof (cases "case Contents data of None \<Rightarrow> True | Some contents \<Rightarrow> length contents = 0")
      case True
      with r f Inr show ?thesis
        by (auto simp: app_get_files_def snd_io_try snd_io_bind s3_send_ListObjectsV2_def io_return_simps)
    next
      case False
      with r f Inr have "snd (Promise_all (settles_first e) (map (\<lambda>item.
          io_bind (getSignedUrl_GetObject e (Key item) 300) (\<lambda>url. io_return (file_entry item url)))
          (take 5 (js_sort by_LastModified_desc (filter realObject (contents_or_empty data)))))) = Inr files"
        by (auto simp: app_get_files_def snd_io_try snd_io_bind s3_send_ListObjectsV2_def io_return_simps
            slice0_5 split: sum.splits)
      from snd_sign_all_keys[OF this] Inr show ?thesis
        unfolding b by (simp add: S_def listed_def comp_def)
    qed
  qed
  from a b c d show ?thesis
    unfolding listed_def[symmetric] S_def[symmetric] Let_def by blast
qed

text \<open>Of ten listed objects, three (five in the monolithic handler) are signed.\<close>

theorem signer_expiry_witness:
  "sign_calls (fst (listRecentFiles env_ten (Some 3)))
     = [(Key (obj_n 5 1000), 300), (Key (obj_n 1 900), 300), (Key (obj_n 7 800), 300)]
   \<and> sign_calls (fst (app_get_files env_ten))
     = [(Key (obj_n 5 1000), 300), (Key (obj_n 1 900), 300), (Key (obj_n 7 800), 300),
        (Key (obj_n 3 700), 300), (Key (obj_n 9 600), 300)]"
proof -
  have l10: "send_ListObjectsV2 env_ten 200 = Inr \<lparr> Contents = Some ten_objects, list_httpStatusCode = Some 200 \<rparr>"
    by (simp add: env_ten_def ten_objects_def)
  have S10: "js_sort by_LastModified_desc (filter realObject ten_objects)
      = [obj_n 5 1000, obj_n 1 900, obj_n 7 800, obj_n 3 700, obj_n 9 600,
         obj_n 0 500, obj_n 8 400, obj_n 4 300, obj_n 6 200, obj_n 2 100]"
    by (simp add: ten_objects_def obj_n_simps js_sort_def by_LastModified_desc_def)
  from signer_expiry[of env_ten 3] show ?thesis
    unfolding Let_def l10 by (simp add: contents_or_empty_def S10)
qed

text \<open>
  Claim C6 as stated fails for the monolithic variant: its signer call carries 300, not 60.
\<close>

theorem legacy_expiry_counterexample:
  "sign_calls (fst (app_get_files env_one)) = [(Some (js ''uploads/1-a.mp4''), 300)]
   \<and> sign_calls (fst (app_get_files env_one)) \<noteq> [(Some (js ''uploads/1-a.mp4''), 60)]"
proof -
  have l1: "send_ListObjectsV2 env_one 200 = Inr \<lparr> Contents = Some [folder_marker, obj_a], list_httpStatusCode = Some 200 \<rparr>"
    by (simp add: env_one_def)
  have real: "realObject obj_a" "\<not> realObject folder_marker"
    by (simp_all add: folder_marker_def obj_a_def realObject_def truthy_def js_def)
  have "sign_calls (fst (app_get_files env_one)) = [(Key obj_a, 300)]"
    by (simp add: fst_app_get_files l1 contents_or_empty_def real js_sort_def)
  then show ?thesis by (simp add: obj_a_def)
qed

section \<open>The connectivity probe\<close>

text \<open>
  Claim C7. The probe (the gateway's \<open>debugS3Connectivity\<close> and the monolithic
  \<^verbatim>\<open>/debug/s3\<close> handler) always issues both requests, the bucket check and then the
  listing of at most 5 keys under the prefix, whatever the outcome of the first. It always
  returns a report, never an error, and the report holds the two step records in that
  order, each with the outcome of its own request.
\<close>

theorem probe_runs_both_steps:
  "\<exists>s1 s2 t1 t2.
     debugS3Connectivity e =
       ([HeadBucketCall, ListObjectsV2Call PREFIX 5],
        Inr (JObj [(''region'', str_val (AWS_REGION e)), (''bucket'', str_val (BUCKET e)),
                   (''steps'', JArr [s1, s2])]))
   \<and> field ''step'' s1 = Some (JStr (js ''HeadBucket''))
   \<and> field ''ok'' s1 = Some (JBool (\<not> isl (send_HeadBucket e)))
   \<and> field ''step'' s2 = Some (JStr (js ''ListObjectsV2''))
   \<and> field ''ok'' s2 = Some (JBool (\<not> isl (send_ListObjectsV2 e 5)))
   \<and> app_get_debug_s3 e =
       ([HeadBucketCall, ListObjectsV2Call PREFIX 5],
        Inr \<lparr> status = 200,
              body = JObj [(''region'', str_val (AWS_REGION e)), (''bucket'', str_val (BUCKET e)),
                           (''steps'', JArr [t1, t2])] \<rparr>)
   \<and> field ''step'' t1 = Some (JStr (js ''HeadBucket''))
   \<and> field ''ok'' t1 = Some (JBool (\<not> isl (send_HeadBucket e)))
   \<and> field ''step'' t2 = Some (JStr (js ''ListObjectsV2''))
   \<and> field ''ok'' t2 = Some (JBool (\<not> isl (send_ListObjectsV2 e 5)))"
proof (cases "send_HeadBucket e")
  case head: (Inl herr)
  show ?thesis
  proof (cases "send_ListObjectsV2 e 5")
    case (Inl lerr)
    with head show ?thesis
      by (simp add: debugS3Connectivity_def app_get_debug_s3_def io_bind_def io_try_def io_return_def
          s3_send_HeadBucket_def s3_send_ListObjectsV2_def)
  next
    case (Inr list)
    with head show ?thesis
      by (simp add: debugS3Connectivity_def app_get_debug_s3_def io_bind_def io_try_def io_return_def
          s3_send_HeadBucket_def s3_send_ListObjectsV2_def)
  qed
next
  case head: (Inr hd_out)
  show ?thesis
  proof (cases "send_ListObjectsV2 e 5")
    case (Inl lerr)
    with head show ?thesis
      by (simp add: debugS3Connectivity_def app_get_debug_s3_def io_bind_def io_try_def io_return_def
          s3_send_HeadBucket_def s3_send_ListObjectsV2_def)
  next
    case (Inr list)
    with head show ?thesis
      by (simp add: debugS3Connectivity_def app_get_debug_s3_def io_bind_def io_try_def io_return_def
          s3_send_HeadBucket_def s3_send_ListObjectsV2_def)
  qed
qed


text \<open>The bucket check is refused and the listing succeeds.\<close>

theorem probe_runs_both_steps_witness:
  "isl (send_HeadBucket env_head_denied) \<and> \<not> isl (send_ListObjectsV2 env_head_denied 5)
   \<and> (\<exists>s1 s2.
         debugS3Connectivity env_head_denied =
           ([HeadBucketCall, ListObjectsV2Call PREFIX 5],
            Inr (JObj [(''region'', JStr (js ''ap-southeast-1'')), (''bucket'', JStr (js ''pod-videos'')),
                       (''steps'', JArr [s1, s2])]))
       \<and> field ''ok'' s1 = Some (JBool False) \<and> field ''ok'' s2 = Some (JBool True))
   \<and> (\<exists>t1 t2.
         app_get_debug_s3 env_head_denied =
           ([HeadBucketCall, ListObjectsV2Call PREFIX 5],
            Inr \<lparr> status = 200,
                  body = JObj [(''region'', JStr (js ''ap-southeast-1'')), (''bucket'', JStr (js ''pod-videos'')),
                               (''steps'', JArr [t1, t2])] \<rparr>)
       \<and> field ''ok'' t1 = Some (JBool False) \<and> field ''ok'' t2 = Some (JBool True))"
proof -
  have h: "isl (send_HeadBucket env_head_denied)" and l: "\<not> isl (send_ListObjectsV2 env_head_denied 5)"
    by (simp_all add: env_head_denied_def env_example_def)
  have cfg: "str_val (AWS_REGION env_head_denied) = JStr (js ''ap-southeast-1'')"
    "str_val (BUCKET env_head_denied) = JStr (js ''pod-videos'')"
    by (simp_all add: env_head_denied_def env_example_def str_val_def)
  from probe_runs_both_steps[of env_head_denied] h l show ?thesis
    unfolding cfg by auto
qed

text \<open>
  Claim C8, as amended. The record of a failing step holds \<^verbatim>\<open>ok\<close> (false), \<^verbatim>\<open>code\<close>
  and \<^verbatim>\<open>message\<close>; in the monolithic variant it also holds \<^verbatim>\<open>httpStatus\<close>, in the
  gateway of the split variant it does not. The record of a succeeding bucket check holds
  \<^verbatim>\<open>ok\<close> (true) and \<^verbatim>\<open>httpStatus\<close> in both variants.
\<close>

theorem probe_step_fields:
  "\<exists>s1 s2 t1 t2 report resp.
     snd (debugS3Connectivity e) = Inr report \<and> steps_of report = [s1, s2]
   \<and> snd (app_get_debug_s3 e) = Inr resp \<and> steps_of (body resp) = [t1, t2]
   \<and> (isl (send_HeadBucket e) \<longrightarrow>
         field ''ok'' s1 = Some (JBool False) \<and> field_names s1 = [''step'', ''ok'', ''code'', ''message'']
       \<and> field ''ok'' t1 = Some (JBool False)
       \<and> field_names t1 = [''step'', ''ok'', ''code'', ''message'', ''httpStatus''])
   \<and> (isl (send_ListObjectsV2 e 5) \<longrightarrow>
         field ''ok'' s2 = Some (JBool False) \<and> field_names s2 = [''step'', ''ok'', ''code'', ''message'']
       \<and> field ''ok'' t2 = Some (JBool False)
       \<and> field_names t2 = [''step'', ''ok'', ''code'', ''message'', ''httpStatus''])
   \<and> (\<not> isl (send_HeadBucket e) \<longrightarrow>
         field ''ok'' s1 = Some (JBool True) \<and> field_names s1 = [''step'', ''ok'', ''httpStatus'']
       \<and> field ''ok'' t1 = Some (JBool True) \<and> field_names t1 = [''step'', ''ok'', ''httpStatus''])"
proof (cases "send_HeadBucket e")
  case head: (Inl herr)
  show ?thesis
  proof (cases "send_ListObjectsV2 e 5")
    case (Inl lerr)
    with head show ?thesis
      by (simp add: debugS3Connectivity_def app_get_debug_s3_def io_bind_def io_try_def io_return_def
          s3_send_HeadBucket_def s3_send_ListObjectsV2_def steps_of_def)
  next
    case (Inr list)
    with head show ?thesis
      by (simp add: debugS3Connectivity_def app_get_debug_s3_def io_bind_def io_try_def io_return_def
          s3_send_HeadBucket_def s3_send_ListObjectsV2_def steps_of_def)
  qed
next
  case head: (Inr hd_out)
  show ?thesis
  proof (cases "send_ListObjectsV2 e 5")
    case (Inl lerr)
    with head show ?thesis
      by (simp add: debugS3Connectivity_def app_get_debug_s3_def io_bind_def io_try_def io_return_def
          s3_send_HeadBucket_def s3_send_ListObjectsV2_def steps_of_def)
  next
    case (Inr list)
    with head show ?thesis
      by (simp add: debugS3Connectivity_def app_get_debug_s3_def io_bind_def io_try_def io_return_def
          s3_send_HeadBucket_def s3_send_ListObjectsV2_def steps_of_def)
  qed
qed

text \<open>Both requests refused; and the healthy environment.\<close>

theorem probe_step_fields_witness:
  "isl (send_HeadBucket env_all_denied) \<and> isl (send_ListObjectsV2 env_all_denied 5)
   \<and> map field_names (steps_of (body (projr (snd (app_get_debug_s3 env_all_denied)))))
       = [[''step'', ''ok'', ''code'', ''message'', ''httpStatus''],
          [''step'', ''ok'', ''code'', ''message'', ''httpStatus'']]
   \<and> map (field ''ok'') (steps_of (body (projr (snd (app_get_debug_s3 env_all_denied)))))
       = [Some (JBool False), Some (JBool False)]
   \<and> \<not> isl (send_HeadBucket env_example)
   \<and> field_names (hd (steps_of (projr (snd (debugS3Connectivity env_example))))) = [''step'', ''ok'', ''httpStatus'']
   \<and> field_names (hd (steps_of (body (projr (snd (app_get_debug_s3 env_example)))))) = [''step'', ''ok'', ''httpStatus'']"
proof -
  have d: "isl (send_HeadBucket env_all_denied)" "isl (send_ListObjectsV2 env_all_denied 5)"
    by (simp_all add: env_all_denied_def env_example_def)
  have ok: "\<not> isl (send_HeadBucket env_example)"
    by (simp add: env_example_def)
  from probe_step_fields[of env_all_denied] probe_step_fields[of env_example] d ok
  show ?thesis by auto
qed

text \<open>
  Claim C8 as stated fails in the gateway of the split variant: its failing steps record
  no \<^verbatim>\<open>httpStatus\<close>.
\<close>

theorem probe_step_fields_counterexample:
  "isl (send_HeadBucket env_all_denied) \<and> isl (send_ListObjectsV2 env_all_denied 5)
   \<and> map field_names (steps_of (projr (snd (debugS3Connectivity env_all_denied))))
       = [[''step'', ''ok'', ''code'', ''message''], [''step'', ''ok'', ''code'', ''message'']]
   \<and> map (field ''httpStatus'') (steps_of (projr (snd (debugS3Connectivity env_all_denied))))
       = [None, None]"
  by (simp add: env_all_denied_def env_example_def debugS3Connectivity_def io_bind_def io_try_def
      io_return_def s3_send_HeadBucket_def s3_send_ListObjectsV2_def steps_of_def)

section \<open>The responses of the listing handlers\<close>

lemma isl_map_sum: "isl (case r of Inl err \<Rightarrow> Inl err | Inr url \<Rightarrow> Inr (g url)) = isl r"
  by (cases r) simp_all

lemma isl_sign_all:
  "isl (snd (Promise_all pick (map (\<lambda>item.
          io_bind (getSignedUrl_GetObject e (Key item) x) (\<lambda>url. io_return (file_entry item url))) xs)))
     \<longleftrightarrow> (\<exists>item\<in>set xs. isl (getSignedUrl e (Key item) x))"
  by (simp add: Promise_all_def isl_all_results snd_sign_item isl_map_sum)

lemma length_sign_all:
  "snd (Promise_all pick (map (\<lambda>item.
          io_bind (getSignedUrl_GetObject e (Key item) x) (\<lambda>url. io_return (file_entry item url))) xs))
     = Inr files \<Longrightarrow> length files = length xs"
  using snd_sign_all_keys[of pick e x xs files] by (metis length_map)

lemma contents_or_empty_Nil:
  "contents_or_empty data = [] \<longleftrightarrow> (case Contents data of None \<Rightarrow> True | Some contents \<Rightarrow> length contents = 0)"
  by (simp add: contents_or_empty_def split: option.splits)

text \<open>
  Claim C9, as amended. The monolithic \<^verbatim>\<open>GET /files\<close> handler answers an empty listing
  with the body \<^verbatim>\<open>{message, bucket}\<close>, a non-empty one with a success body holding
  \<^verbatim>\<open>count\<close> and \<^verbatim>\<open>files\<close> (and \<^verbatim>\<open>bucket\<close>, \<^verbatim>\<open>prefix\<close>), and a failure of the
  storage service or of the signer with a 500 whose body is
  \<^verbatim>\<open>{error, code, details, bucket, prefix}\<close>. The handler of the split variant answers
  an empty listing with \<^verbatim>\<open>{count: 0, files: []}\<close>, a non-empty one with
  \<^verbatim>\<open>{count, files}\<close>, and a failure with a 500 whose body is \<^verbatim>\<open>{error, details}\<close>.
\<close>

theorem files_response_bodies:
  "\<exists>r q.
     snd (app_get_files e) = Inr r \<and> snd (getFiles e) = Inr q
   \<and> (case send_ListObjectsV2 e 200 of
        Inl err \<Rightarrow>
          status r = 500 \<and> field_names (body r) = [''error'', ''code'', ''details'', ''bucket'', ''prefix'']
        \<and> status q = 500 \<and> field_names (body q) = [''error'', ''details'']
      | Inr data \<Rightarrow>
          if contents_or_empty data = [] then
            status r = 200 \<and> field_names (body r) = [''message'', ''bucket'']
          \<and> q = \<lparr> status = 200, body = JObj [(''count'', JNum 0), (''files'', JArr [])] \<rparr>
          else if \<exists>item\<in>set (take 5 (js_sort by_LastModified_desc (filter realObject (contents_or_empty data)))).
                    isl (getSignedUrl e (Key item) 300) then
            status r = 500 \<and> field_names (body r) = [''error'', ''code'', ''details'', ''bucket'', ''prefix'']
          \<and> status q = 500 \<and> field_names (body q) = [''error'', ''details'']
          else
            status r = 200 \<and> field_names (body r) = [''count'', ''bucket'', ''prefix'', ''files'']
          \<and> status q = 200 \<and> field_names (body q) = [''count'', ''files''])"
proof (cases "send_ListObjectsV2 e 200")
  case (Inl err)
  then show ?thesis
    by (simp add: app_get_files_def getFiles_def listRecentFiles_def snd_io_try snd_io_bind
        s3_send_ListObjectsV2_def io_return_simps)
next
  case (Inr data)
  show ?thesis
  proof (cases "contents_or_empty data = []")
    case True
    then have c: "case Contents data of None \<Rightarrow> True | Some contents \<Rightarrow> length contents = 0"
      by (simp add: contents_or_empty_Nil)
    have "snd (listRecentFiles e (Some 5)) = Inr []"
      using Inr True
      by (cases "Contents data")
         (simp_all add: listRecentFiles_def snd_io_bind s3_send_ListObjectsV2_def io_return_simps
            contents_or_empty_def js_sort_Nil slice0_5 Promise_all_Nil)
    with Inr True c show ?thesis
      by (simp add: app_get_files_def getFiles_def snd_io_try snd_io_bind
          s3_send_ListObjectsV2_def io_return_simps)
  next
    case False
    then have c: "\<not> (case Contents data of None \<Rightarrow> True | Some contents \<Rightarrow> length contents = 0)"
      by (simp add: contents_or_empty_Nil)
    from False obtain L where L: "Contents data = Some L" "contents_or_empty data = L"
      by (cases "Contents data") (simp_all add: contents_or_empty_def)
    let ?recent = "take 5 (js_sort by_LastModified_desc (filter realObject L))"
    let ?p = "Promise_all (settles_first e) (map (\<lambda>item.
          io_bind (getSignedUrl_GetObject e (Key item) 300) (\<lambda>url. io_return (file_entry item url))) ?recent)"
    have lst: "snd (listRecentFiles e (Some 5)) = snd ?p"
      using Inr L
      by (simp add: listRecentFiles_def snd_io_bind s3_send_ListObjectsV2_def slice0_5)
    have app: "snd (app_get_files e) =
        (case snd ?p of
           Inl err \<Rightarrow> Inr \<lparr> status = 500,
              body = JObj [(''error'', JStr (js ''Failed to list files'')),
                           (''code'', JStr (or_default (err_name err) [])),
                           (''details'', JStr (message_or_string err)),
                           (''bucket'', str_val (BUCKET e)),
                           (''prefix'', JStr PREFIX)] \<rparr>
         | Inr files \<Rightarrow> Inr \<lparr> status = 200,
              body = JObj [(''count'', JNum (int (length files))),
                           (''bucket'', str_val (BUCKET e)),
                           (''prefix'', JStr PREFIX),
                           (''files'', JArr files)] \<rparr>)"
      using Inr c L
      by (simp add: app_get_files_def snd_io_try snd_io_bind s3_send_ListObjectsV2_def
          io_return_simps slice0_5 split: sum.splits)
    show ?thesis
    proof (cases "snd ?p")
      case fail: (Inl err)
      then have "\<exists>item\<in>set ?recent. isl (getSignedUrl e (Key item) 300)"
        using isl_sign_all[of "settles_first e" e 300 ?recent] by simp
      with Inr False L fail lst app show ?thesis
        by (simp add: getFiles_def snd_io_try snd_io_bind io_return_simps)
    next
      case ok: (Inr files)
      then have "\<not> (\<exists>item\<in>set ?recent. isl (getSignedUrl e (Key item) 300))"
        using isl_sign_all[of "settles_first e" e 300 ?recent] by simp
      with Inr False L ok lst app show ?thesis
        by (simp add: getFiles_def snd_io_try snd_io_bind io_return_simps)
    qed
  qed
qed

text \<open>An empty bucket, a bucket with one object, and a refused listing.\<close>

theorem files_response_bodies_witness:
  "status (projr (snd (app_get_files env_example))) = 200
   \<and> field_names (body (projr (snd (app_get_files env_example)))) = [''message'', ''bucket'']
   \<and> status (projr (snd (app_get_files env_one))) = 200
   \<and> field_names (body (projr (snd (app_get_files env_one)))) = [''count'', ''bucket'', ''prefix'', ''files'']
   \<and> status (projr (snd (app_get_files env_all_denied))) = 500
   \<and> field_names (body (projr (snd (app_get_files env_all_denied))))
       = [''error'', ''code'', ''details'', ''bucket'', ''prefix'']"
proof -
  have l0: "send_ListObjectsV2 env_example 200 = Inr \<lparr> Contents = None, list_httpStatusCode = Some 200 \<rparr>"
    by (simp add: env_example_def)
  have l1: "send_ListObjectsV2 env_one 200 = Inr \<lparr> Contents = Some [folder_marker, obj_a], list_httpStatusCode = Some 200 \<rparr>"
    by (simp add: env_one_def)
  have s1: "\<not> isl (getSignedUrl env_one k 300)" for k
    by (simp add: env_one_def env_example_def)
  have l2: "send_ListObjectsV2 env_all_denied 200 = Inl AccessDenied"
    by (simp add: env_all_denied_def)
  from files_response_bodies[of env_example] have a:
    "status (projr (snd (app_get_files env_example))) = 200
     \<and> field_names (body (projr (snd (app_get_files env_example)))) = [''message'', ''bucket'']"
    unfolding l0 by (auto simp: contents_or_empty_def)
  from files_response_bodies[of env_one] have b:
    "status (projr (snd (app_get_files env_one))) = 200
     \<and> field_names (body (projr (snd (app_get_files env_one)))) = [''count'', ''bucket'', ''prefix'', ''files'']"
    unfolding l1 by (auto simp: contents_or_empty_def s1)
  from files_response_bodies[of env_all_denied] have c:
    "status (projr (snd (app_get_files env_all_denied))) = 500
     \<and> field_names (body (projr (snd (app_get_files env_all_denied))))
       = [''error'', ''code'', ''details'', ''bucket'', ''prefix'']"
    unfolding l2 by auto
  from a b c show ?thesis by simp
qed

text \<open>
  Claim C9 as stated fails for \<open>getFiles\<close> of the split variant, on an empty listing and on a
  refused one.
\<close>

theorem getFiles_bodies_counterexample:
  "send_ListObjectsV2 env_example 200 = Inr \<lparr> Contents = None, list_httpStatusCode = Some 200 \<rparr>
   \<and> getFiles env_example =
       ([ListObjectsV2Call PREFIX 200],
        Inr \<lparr> status = 200, body = JObj [(''count'', JNum 0), (''files'', JArr [])] \<rparr>)
   \<and> field_names (body (projr (snd (getFiles env_example)))) \<noteq> [''message'', ''bucket'']
   \<and> send_ListObjectsV2 env_all_denied 200 = Inl AccessDenied
   \<and> getFiles env_all_denied =
       ([ListObjectsV2Call PREFIX 200],
        Inr \<lparr> status = 500,
              body = JObj [(''error'', JStr (js ''Failed to list files'')),
                           (''details'', JStr (js ''Access Denied''))] \<rparr>)
   \<and> field_names (body (projr (snd (getFiles env_all_denied))))
       \<noteq> [''error'', ''code'', ''details'', ''bucket'', ''prefix'']"
  by (simp add: env_all_denied_def env_example_def getFiles_def listRecentFiles_def io_bind_def
      io_try_def io_return_def s3_send_ListObjectsV2_def AccessDenied_def str_val_def)

end
